theory Spec2Isabelle
  imports Complex_Main
begin

section \<open>Python values, exceptions and containers\<close>

text \<open>
  The program is Python. Its floats are modelled as real numbers, its exceptions as the
  left summand of a sum type, its dictionaries as partial maps and its sequences as
  lists. An index into a sequence and a key into a dictionary raise when they miss.
\<close>

datatype py_error =
    KeyError | IndexError | ValueError | TypeError | ZeroDivisionError | AttributeError
  | GurobiError

definition dict_get :: "('k \<rightharpoonup> 'v) \<Rightarrow> 'k \<Rightarrow> py_error + 'v" where
  "dict_get m k = (case m k of None \<Rightarrow> Inl KeyError | Some v \<Rightarrow> Inr v)"

definition seq_get :: "'a list \<Rightarrow> nat \<Rightarrow> py_error + 'a" where
  "seq_get xs i = (if i < length xs then Inr (xs ! i) else Inl IndexError)"

definition py_truediv :: "real \<Rightarrow> real \<Rightarrow> py_error + real" where
  "py_truediv a b = (if b = 0 then Inl ZeroDivisionError else Inr (a / b))"

text \<open>Sequencing of two computations that may raise: the first exception wins.\<close>

definition and_then :: "py_error + 'a \<Rightarrow> ('a \<Rightarrow> py_error + 'b) \<Rightarrow> py_error + 'b" where
  "and_then r f = (case r of Inl e \<Rightarrow> Inl e | Inr v \<Rightarrow> f v)"

text \<open>
  The builtin \<open>max\<close> over a sequence: \<open>ValueError\<close> on an empty one, otherwise the
  first element, replaced by each later element that is greater.
\<close>

fun max_from :: "real \<Rightarrow> real list \<Rightarrow> real" where
  "max_from m [] = m"
| "max_from m (x # xs) = max_from (if m < x then x else m) xs"

definition py_max :: "real list \<Rightarrow> py_error + real" where
  "py_max xs = (case xs of [] \<Rightarrow> Inl ValueError | x # rest \<Rightarrow> Inr (max_from x rest))"

section \<open>Input data (data_loader.py)\<close>

text \<open>
  Of a timestamp the program reads the hour only. The dictionary \<open>data\<close> has the three
  keys \<open>time\<close>, \<open>solar_production\<close> and \<open>load_demand\<close>; a field that is \<open>None\<close> is a key
  that is absent. The rate table and the battery parameters are dictionaries from
  strings to floats.
\<close>

record timestamp =
  hour :: nat
  minute :: nat

record data =
  time :: "timestamp list option"
  solar_production :: "real list option"
  load_demand :: "real list option"

type_synonym params = "string \<rightharpoonup> real"

definition data_time :: "data \<Rightarrow> py_error + timestamp list" where
  "data_time d = (case time d of None \<Rightarrow> Inl KeyError | Some ts \<Rightarrow> Inr ts)"

definition data_solar_production :: "data \<Rightarrow> py_error + real list" where
  "data_solar_production d =
     (case solar_production d of None \<Rightarrow> Inl KeyError | Some xs \<Rightarrow> Inr xs)"

definition data_load_demand :: "data \<Rightarrow> py_error + real list" where
  "data_load_demand d = (case load_demand d of None \<Rightarrow> Inl KeyError | Some xs \<Rightarrow> Inr xs)"

subsection \<open>get_time_of_use_rates\<close>

text \<open>The body of the loop: the band of one hour, in the order of the source.\<close>

definition rate_of_hour :: "params \<Rightarrow> nat \<Rightarrow> py_error + real" where
  "rate_of_hour cost_params h =
     (if 2 \<le> h \<and> h < 4 then dict_get cost_params ''boost_rate''
      else if 23 \<le> h \<or> h < 8 then dict_get cost_params ''night_rate''
      else dict_get cost_params ''day_rate'')"

fun rates_loop ::
  "data \<Rightarrow> params \<Rightarrow> nat list \<Rightarrow> (nat \<rightharpoonup> real) \<Rightarrow> py_error + (nat \<rightharpoonup> real)" where
  "rates_loop d cost_params [] buy_rates = Inr buy_rates"
| "rates_loop d cost_params (t # rest) buy_rates =
     and_then (data_time d) (\<lambda>ts.
     and_then (seq_get ts t) (\<lambda>stamp.
     and_then (rate_of_hour cost_params (hour stamp)) (\<lambda>r.
     rates_loop d cost_params rest (buy_rates(t \<mapsto> r)))))"

definition get_time_of_use_rates :: "data \<Rightarrow> params \<Rightarrow> py_error + (nat \<rightharpoonup> real)" where
  "get_time_of_use_rates d cost_params =
     and_then (data_time d) (\<lambda>ts.
     rates_loop d cost_params [0..<length ts] Map.empty)"

text \<open>The rate that the specification gives to an hour, for a table of three rates.\<close>

definition band_rate :: "real \<Rightarrow> real \<Rightarrow> real \<Rightarrow> nat \<Rightarrow> real" where
  "band_rate boost night day h =
     (if 2 \<le> h \<and> h < 4 then boost else if 23 \<le> h \<or> h < 8 then night else day)"

section \<open>The optimisation model (the interface of gurobipy that model_builder.py uses)\<close>

text \<open>
  A decision variable is named by its family and its time step, as \<open>addVars\<close> names
  it. A linear expression is kept as the program writes it; \<open>eval\<close> gives its value
  under an assignment of the variables. A constraint is a comparison of two
  expressions, named by a prefix and a time step (the f-string \<open>prefix_{t}\<close>).
\<close>

type_synonym var = "string \<times> nat"

type_synonym tupledict = "nat \<rightharpoonup> var"

datatype vtype = CONTINUOUS | BINARY

record var_decl =
  vname :: var
  lb :: real
  vtype :: vtype

datatype linexpr =
    Const real
  | Var var
  | Add linexpr linexpr
  | Sub linexpr linexpr
  | Scale linexpr real
  | Div linexpr real
  | QuickSum "linexpr list"

datatype sense = EQ | LE | GE

record constr =
  lhs :: linexpr
  sense :: sense
  rhs :: linexpr
  cname :: "string \<times> nat"

datatype obj_sense = MINIMIZE | MAXIMIZE

record model =
  mname :: string
  mvars :: "var_decl list"
  objective :: linexpr
  objective_sense :: obj_sense
  constrs :: "constr list"

definition Model :: "string \<Rightarrow> model" where
  "Model n = \<lparr>mname = n, mvars = [], objective = Const 0, objective_sense = MINIMIZE,
              constrs = []\<rparr>"

text \<open>
  \<open>addVars\<close> adds one variable for each index, with the given lower bound (no upper
  bound) and type, and returns the dictionary from the index to the variable.
\<close>

definition var_family :: "string \<Rightarrow> nat list \<Rightarrow> tupledict" where
  "var_family n idx = (\<lambda>t. if t \<in> set idx then Some (n, t) else None)"

definition addVars :: "model \<Rightarrow> nat list \<Rightarrow> real \<Rightarrow> vtype \<Rightarrow> string \<Rightarrow> model \<times> tupledict" where
  "addVars m idx l ty n =
     (m\<lparr>mvars := mvars m @ map (\<lambda>t. \<lparr>vname = (n, t), lb = l, vtype = ty\<rparr>) idx\<rparr>,
      var_family n idx)"

definition setObjective :: "model \<Rightarrow> linexpr \<Rightarrow> obj_sense \<Rightarrow> model" where
  "setObjective m e s = m\<lparr>objective := e, objective_sense := s\<rparr>"

definition addConstr :: "model \<Rightarrow> constr \<Rightarrow> model" where
  "addConstr m c = m\<lparr>constrs := constrs m @ [c]\<rparr>"

subsection \<open>The meaning of a model\<close>

fun eval :: "(var \<Rightarrow> real) \<Rightarrow> linexpr \<Rightarrow> real" where
  "eval x (Const r) = r"
| "eval x (Var v) = x v"
| "eval x (Add a b) = eval x a + eval x b"
| "eval x (Sub a b) = eval x a - eval x b"
| "eval x (Scale a r) = eval x a * r"
| "eval x (Div a r) = eval x a / r"
| "eval x (QuickSum es) = sum_list (map (eval x) es)"

definition holds :: "(var \<Rightarrow> real) \<Rightarrow> constr \<Rightarrow> bool" where
  "holds x c =
     (case sense c of
        EQ \<Rightarrow> eval x (lhs c) = eval x (rhs c)
      | LE \<Rightarrow> eval x (lhs c) \<le> eval x (rhs c)
      | GE \<Rightarrow> eval x (lhs c) \<ge> eval x (rhs c))"

definition within_bounds :: "(var \<Rightarrow> real) \<Rightarrow> var_decl \<Rightarrow> bool" where
  "within_bounds x v =
     (lb v \<le> x (vname v) \<and> (vtype v = BINARY \<longrightarrow> x (vname v) = 0 \<or> x (vname v) = 1))"

definition feasible :: "model \<Rightarrow> (var \<Rightarrow> real) \<Rightarrow> bool" where
  "feasible m x = (list_all (within_bounds x) (mvars m) \<and> list_all (holds x) (constrs m))"

section \<open>The process environment (config.py)\<close>

text \<open>
  \<open>GUROBI_LICENSE_FILE\<close> is read from the environment when the module is loaded;
  \<open>setup_gurobi_env\<close> writes it back under another name when it is set and not empty.
\<close>

type_synonym environ = "string \<rightharpoonup> string"

definition setup_gurobi_env :: "string option \<Rightarrow> environ \<Rightarrow> environ" where
  "setup_gurobi_env GUROBI_LICENSE_FILE env =
     (case GUROBI_LICENSE_FILE of
        None \<Rightarrow> env
      | Some f \<Rightarrow> if f = [] then env else env(''GRB_LICENSE_FILE'' \<mapsto> f))"

section \<open>The calls into gurobipy\<close>

text \<open>
  Every call into the library may raise \<open>GurobiError\<close>: the constructor of a model,
  which reads the licence from the process environment, the methods of a model, and
  the operators on variables and expressions, which refuse a coefficient outside their
  range. Which calls are refused is not in this repository; it is a parameter, a
  predicate on the call and its arguments. A call that is not refused returns the
  value written here.
\<close>

datatype call =
    Call_Model environ string
  | Call_addVars "nat list" real vtype string
  | Call_quicksum "linexpr list"
  | Call_setObjective linexpr obj_sense
  | Call_addConstr constr
  | Op_add linexpr linexpr
  | Op_sub linexpr linexpr
  | Op_mul linexpr real
  | Op_div linexpr real
  | Op_cmp linexpr sense linexpr

type_synonym gurobipy = "call \<Rightarrow> bool"

definition gp_call :: "gurobipy \<Rightarrow> call \<Rightarrow> 'a \<Rightarrow> py_error + 'a" where
  "gp_call refused c v = (if refused c then Inl GurobiError else Inr v)"

definition expr_add :: "gurobipy \<Rightarrow> linexpr \<Rightarrow> linexpr \<Rightarrow> py_error + linexpr" where
  "expr_add refused a b = gp_call refused (Op_add a b) (Add a b)"

definition expr_sub :: "gurobipy \<Rightarrow> linexpr \<Rightarrow> linexpr \<Rightarrow> py_error + linexpr" where
  "expr_sub refused a b = gp_call refused (Op_sub a b) (Sub a b)"

definition expr_mul :: "gurobipy \<Rightarrow> linexpr \<Rightarrow> real \<Rightarrow> py_error + linexpr" where
  "expr_mul refused a r = gp_call refused (Op_mul a r) (Scale a r)"

text \<open>
  Division of an expression by a float: the library multiplies by the reciprocal of the
  divisor, which Python cannot take of zero.
\<close>

definition expr_truediv :: "gurobipy \<Rightarrow> linexpr \<Rightarrow> real \<Rightarrow> py_error + linexpr" where
  "expr_truediv refused a d =
     (if d = 0 then Inl ZeroDivisionError else gp_call refused (Op_div a d) (Div a d))"

text \<open>
  \<open>model.addConstr(a == b, name=...)\<close>, and the same for \<open>\<le>\<close> and \<open>\<ge>\<close>: the comparison
  makes the constraint, the method adds it.
\<close>

definition add_constr ::
  "gurobipy \<Rightarrow> model \<Rightarrow> linexpr \<Rightarrow> sense \<Rightarrow> linexpr \<Rightarrow> string \<times> nat \<Rightarrow> py_error + model" where
  "add_constr refused m a s b n =
     and_then (gp_call refused (Op_cmp a s b) \<lparr>lhs = a, sense = s, rhs = b, cname = n\<rparr>) (\<lambda>c.
     gp_call refused (Call_addConstr c) (addConstr m c))"

text \<open>
  A computation that returns \<open>v\<close> unless the library refuses one of its calls: it gives
  \<open>v\<close>, or it raises \<open>GurobiError\<close> and some call is refused.
\<close>

definition returns_unless_refused :: "gurobipy \<Rightarrow> py_error + 'a \<Rightarrow> 'a \<Rightarrow> bool" where
  "returns_unless_refused refused r v =
     (r = Inr v \<or> (r = Inl GurobiError \<and> (\<exists>c. refused c)))"

section \<open>The model builder (model_builder.py)\<close>

text \<open>A \<open>for\<close> loop over a list of indices that threads a state and stops at an exception.\<close>

fun for_loop :: "nat list \<Rightarrow> (nat \<Rightarrow> 's \<Rightarrow> py_error + 's) \<Rightarrow> 's \<Rightarrow> py_error + 's" where
  "for_loop [] body s = Inr s"
| "for_loop (t # ts) body s = and_then (body t s) (for_loop ts body)"

text \<open>A generator or list comprehension over a list of indices.\<close>

fun collect :: "nat list \<Rightarrow> (nat \<Rightarrow> py_error + 'a) \<Rightarrow> py_error + 'a list" where
  "collect [] f = Inr []"
| "collect (t # ts) f =
     and_then (f t) (\<lambda>v. and_then (collect ts f) (\<lambda>vs. Inr (v # vs)))"

definition conversion_factor :: real where
  "conversion_factor = (5 / 60) / 1000"

text \<open>
  The bodies below follow the order in which Python evaluates a statement: the operands
  of an operator from left to right, then the operator.
\<close>

text \<open>The summand of the objective at step \<open>t\<close>.\<close>

definition objective_term ::
  "gurobipy \<Rightarrow> tupledict \<Rightarrow> tupledict \<Rightarrow> tupledict \<Rightarrow> (nat \<rightharpoonup> real) \<Rightarrow> params \<Rightarrow> nat
     \<Rightarrow> py_error + linexpr" where
  "objective_term refused P_grid_household P_grid_battery P_solar_grid buy_rates cost_params t =
     and_then (dict_get P_grid_household t) (\<lambda>gh.
     and_then (dict_get P_grid_battery t) (\<lambda>gb.
     and_then (expr_add refused (Var gh) (Var gb)) (\<lambda>from_grid.
     and_then (expr_mul refused from_grid conversion_factor) (\<lambda>energy_bought.
     and_then (dict_get buy_rates t) (\<lambda>rate.
     and_then (expr_mul refused energy_bought rate) (\<lambda>paid.
     and_then (dict_get P_solar_grid t) (\<lambda>sg.
     and_then (expr_mul refused (Var sg) conversion_factor) (\<lambda>energy_sold.
     and_then (dict_get cost_params ''sell_price'') (\<lambda>sell_price.
     and_then (expr_mul refused energy_sold sell_price) (\<lambda>earned.
     expr_sub refused paid earned))))))))))"

text \<open>1. Solar power balance.\<close>

definition solar_balance ::
  "gurobipy \<Rightarrow> data \<Rightarrow> tupledict \<Rightarrow> tupledict \<Rightarrow> tupledict \<Rightarrow> nat \<Rightarrow> model
     \<Rightarrow> py_error + model" where
  "solar_balance refused d P_solar_household P_solar_battery P_solar_grid t m =
     and_then (dict_get P_solar_household t) (\<lambda>sh.
     and_then (dict_get P_solar_battery t) (\<lambda>sb.
     and_then (expr_add refused (Var sh) (Var sb)) (\<lambda>e.
     and_then (dict_get P_solar_grid t) (\<lambda>sg.
     and_then (expr_add refused e (Var sg)) (\<lambda>used.
     and_then (data_solar_production d) (\<lambda>series.
     and_then (seq_get series t) (\<lambda>produced.
     add_constr refused m used EQ (Const produced) (''solar_balance_'', t))))))))"

text \<open>2. Load demand satisfaction.\<close>

definition load_balance ::
  "gurobipy \<Rightarrow> data \<Rightarrow> tupledict \<Rightarrow> tupledict \<Rightarrow> tupledict \<Rightarrow> nat \<Rightarrow> model
     \<Rightarrow> py_error + model" where
  "load_balance refused d P_solar_household P_battery_household P_grid_household t m =
     and_then (dict_get P_solar_household t) (\<lambda>sh.
     and_then (dict_get P_battery_household t) (\<lambda>bh.
     and_then (expr_add refused (Var sh) (Var bh)) (\<lambda>e.
     and_then (dict_get P_grid_household t) (\<lambda>gh.
     and_then (expr_add refused e (Var gh)) (\<lambda>supplied.
     and_then (data_load_demand d) (\<lambda>series.
     and_then (seq_get series t) (\<lambda>demand.
     add_constr refused m supplied EQ (Const demand) (''load_balance_'', t))))))))"

text \<open>
  3. Battery dynamics: the first step starts from the initial state of charge. The
  product of the initial state of charge and the capacity is a product of floats.
\<close>

definition battery_dynamics ::
  "gurobipy \<Rightarrow> params \<Rightarrow> tupledict \<Rightarrow> tupledict \<Rightarrow> tupledict \<Rightarrow> tupledict \<Rightarrow> nat \<Rightarrow> model
     \<Rightarrow> py_error + model" where
  "battery_dynamics refused battery_params SE P_solar_battery P_grid_battery P_battery_household
       t m =
     (if t = 0 then
        and_then (dict_get SE t) (\<lambda>se.
        and_then (dict_get battery_params ''initial_soc'') (\<lambda>initial_soc.
        and_then (dict_get battery_params ''capacity_kwh'') (\<lambda>capacity_kwh.
        and_then (dict_get P_solar_battery t) (\<lambda>sb.
        and_then (dict_get P_grid_battery t) (\<lambda>gb.
        and_then (expr_add refused (Var sb) (Var gb)) (\<lambda>charge.
        and_then (expr_mul refused charge conversion_factor) (\<lambda>charge_energy.
        and_then (dict_get battery_params ''charge_efficiency'') (\<lambda>charge_efficiency.
        and_then (expr_mul refused charge_energy charge_efficiency) (\<lambda>charged.
        and_then (expr_add refused (Const (initial_soc * capacity_kwh)) charged) (\<lambda>e.
        and_then (dict_get P_battery_household t) (\<lambda>bh.
        and_then (expr_mul refused (Var bh) conversion_factor) (\<lambda>discharge_energy.
        and_then (dict_get battery_params ''discharge_efficiency'') (\<lambda>discharge_efficiency.
        and_then (expr_truediv refused discharge_energy discharge_efficiency) (\<lambda>discharged.
        and_then (expr_sub refused e discharged) (\<lambda>stored.
        add_constr refused m (Var se) EQ stored (''battery_dynamics_'', t))))))))))))))))
      else
        and_then (dict_get SE t) (\<lambda>se.
        and_then (dict_get SE (t - 1)) (\<lambda>se_prev.
        and_then (dict_get P_solar_battery t) (\<lambda>sb.
        and_then (dict_get P_grid_battery t) (\<lambda>gb.
        and_then (expr_add refused (Var sb) (Var gb)) (\<lambda>charge.
        and_then (expr_mul refused charge conversion_factor) (\<lambda>charge_energy.
        and_then (dict_get battery_params ''charge_efficiency'') (\<lambda>charge_efficiency.
        and_then (expr_mul refused charge_energy charge_efficiency) (\<lambda>charged.
        and_then (expr_add refused (Var se_prev) charged) (\<lambda>e.
        and_then (dict_get P_battery_household t) (\<lambda>bh.
        and_then (expr_mul refused (Var bh) conversion_factor) (\<lambda>discharge_energy.
        and_then (dict_get battery_params ''discharge_efficiency'') (\<lambda>discharge_efficiency.
        and_then (expr_truediv refused discharge_energy discharge_efficiency) (\<lambda>discharged.
        and_then (expr_sub refused e discharged) (\<lambda>stored.
        add_constr refused m (Var se) EQ stored (''battery_dynamics_'', t))))))))))))))))"

text \<open>4. Battery capacity limits: two constraints for each step.\<close>

definition soc_limits ::
  "gurobipy \<Rightarrow> params \<Rightarrow> tupledict \<Rightarrow> nat \<Rightarrow> model \<Rightarrow> py_error + model" where
  "soc_limits refused battery_params SE t m =
     and_then (dict_get SE t) (\<lambda>se.
     and_then (dict_get battery_params ''min_soc'') (\<lambda>min_soc.
     and_then (dict_get battery_params ''capacity_kwh'') (\<lambda>capacity_kwh.
     and_then (add_constr refused m (Var se) GE (Const (min_soc * capacity_kwh))
         (''soc_min_'', t)) (\<lambda>m1.
     and_then (dict_get SE t) (\<lambda>se'.
     and_then (dict_get battery_params ''max_soc'') (\<lambda>max_soc.
     and_then (dict_get battery_params ''capacity_kwh'') (\<lambda>capacity_kwh'.
     add_constr refused m1 (Var se') LE (Const (max_soc * capacity_kwh'))
       (''soc_max_'', t))))))))"

text \<open>5. Charging rate limit.\<close>

definition charge_limit ::
  "gurobipy \<Rightarrow> params \<Rightarrow> tupledict \<Rightarrow> tupledict \<Rightarrow> nat \<Rightarrow> model \<Rightarrow> py_error + model" where
  "charge_limit refused battery_params P_solar_battery P_grid_battery t m =
     and_then (dict_get P_solar_battery t) (\<lambda>sb.
     and_then (dict_get P_grid_battery t) (\<lambda>gb.
     and_then (expr_add refused (Var sb) (Var gb)) (\<lambda>charge.
     and_then (dict_get battery_params ''max_charge_rate'') (\<lambda>max_charge_rate.
     add_constr refused m charge LE (Const max_charge_rate) (''charge_limit_'', t)))))"

text \<open>6. Discharging rate limit.\<close>

definition discharge_limit ::
  "gurobipy \<Rightarrow> params \<Rightarrow> tupledict \<Rightarrow> nat \<Rightarrow> model \<Rightarrow> py_error + model" where
  "discharge_limit refused battery_params P_battery_household t m =
     and_then (dict_get P_battery_household t) (\<lambda>bh.
     and_then (dict_get battery_params ''max_discharge_rate'') (\<lambda>max_discharge_rate.
     add_constr refused m (Var bh) LE (Const max_discharge_rate) (''discharge_limit_'', t)))"

text \<open>7. The flows of the battery are tied to the binary indicators.\<close>

definition mode_binary ::
  "gurobipy \<Rightarrow> params \<Rightarrow> tupledict \<Rightarrow> tupledict \<Rightarrow> tupledict \<Rightarrow> tupledict \<Rightarrow> tupledict \<Rightarrow> nat
     \<Rightarrow> model \<Rightarrow> py_error + model" where
  "mode_binary refused battery_params P_solar_battery P_grid_battery P_battery_household BC BD
       t m =
     and_then (dict_get P_solar_battery t) (\<lambda>sb.
     and_then (dict_get P_grid_battery t) (\<lambda>gb.
     and_then (expr_add refused (Var sb) (Var gb)) (\<lambda>charge.
     and_then (dict_get BC t) (\<lambda>bc.
     and_then (dict_get battery_params ''max_charge_rate'') (\<lambda>max_charge_rate.
     and_then (expr_mul refused (Var bc) max_charge_rate) (\<lambda>charge_bound.
     and_then (add_constr refused m charge LE charge_bound (''charge_binary_'', t)) (\<lambda>m1.
     and_then (dict_get P_battery_household t) (\<lambda>bh.
     and_then (dict_get BD t) (\<lambda>bd.
     and_then (dict_get battery_params ''max_discharge_rate'') (\<lambda>max_discharge_rate.
     and_then (expr_mul refused (Var bd) max_discharge_rate) (\<lambda>discharge_bound.
     add_constr refused m1 (Var bh) LE discharge_bound (''discharge_binary_'', t))))))))))))"

text \<open>8. No simultaneous charge and discharge.\<close>

definition no_simultaneous ::
  "gurobipy \<Rightarrow> tupledict \<Rightarrow> tupledict \<Rightarrow> nat \<Rightarrow> model \<Rightarrow> py_error + model" where
  "no_simultaneous refused BC BD t m =
     and_then (dict_get BC t) (\<lambda>bc.
     and_then (dict_get BD t) (\<lambda>bd.
     and_then (expr_add refused (Var bc) (Var bd)) (\<lambda>modes.
     add_constr refused m modes LE (Const 1) (''no_simultaneous_'', t))))"

text \<open>
  9. Grid flow direction; the two maxima are taken anew at every step. The sum of the
  charge rate and the maximal demand is a sum of floats.
\<close>

definition grid_flow ::
  "gurobipy \<Rightarrow> data \<Rightarrow> params \<Rightarrow> tupledict \<Rightarrow> tupledict \<Rightarrow> tupledict \<Rightarrow> tupledict \<Rightarrow> nat
     \<Rightarrow> model \<Rightarrow> py_error + model" where
  "grid_flow refused d battery_params P_grid_household P_grid_battery P_solar_grid GF t m =
     and_then (dict_get P_grid_household t) (\<lambda>gh.
     and_then (dict_get P_grid_battery t) (\<lambda>gb.
     and_then (expr_add refused (Var gh) (Var gb)) (\<lambda>from_grid.
     and_then (dict_get GF t) (\<lambda>gf.
     and_then (dict_get battery_params ''max_charge_rate'') (\<lambda>max_charge_rate.
     and_then (data_load_demand d) (\<lambda>demand.
     and_then (py_max demand) (\<lambda>max_demand.
     and_then (expr_mul refused (Var gf) (max_charge_rate + max_demand)) (\<lambda>from_bound.
     and_then (add_constr refused m from_grid LE from_bound (''grid_flow_from_'', t)) (\<lambda>m1.
     and_then (dict_get P_solar_grid t) (\<lambda>sg.
     and_then (dict_get GF t) (\<lambda>gf'.
     and_then (expr_sub refused (Const 1) (Var gf')) (\<lambda>to_grid.
     and_then (data_solar_production d) (\<lambda>produced.
     and_then (py_max produced) (\<lambda>max_produced.
     and_then (expr_mul refused to_grid max_produced) (\<lambda>to_bound.
     add_constr refused m1 (Var sg) LE to_bound (''grid_flow_to_'', t))))))))))))))))"

text \<open>
  The builder. The constructor is called after \<open>setup_gurobi_env\<close>, in the process
  environment that it leaves, and gives an empty model unless it is refused. The result
  is the model and the dictionary of its variables; the first component of the pair is
  the process environment that the call leaves behind.
\<close>

type_synonym vars_dict = "string \<rightharpoonup> tupledict"

definition create_milp_model ::
  "gurobipy \<Rightarrow> string option \<Rightarrow> environ \<Rightarrow> data \<Rightarrow> params \<Rightarrow> params \<Rightarrow> (nat \<rightharpoonup> real)
     \<Rightarrow> environ \<times> (py_error + model \<times> vars_dict)" where
  "create_milp_model refused GUROBI_LICENSE_FILE env d battery_params cost_params buy_rates =
     (setup_gurobi_env GUROBI_LICENSE_FILE env,
      and_then (gp_call refused
          (Call_Model (setup_gurobi_env GUROBI_LICENSE_FILE env) ''PV_Battery_Optimization'')
          (Model ''PV_Battery_Optimization'')) (\<lambda>m.
      and_then (data_time d) (\<lambda>ts.
      let T = length ts;
          time_steps = [0..<T]
      in
      and_then (gp_call refused (Call_addVars time_steps 0 CONTINUOUS ''P_solar_household'')
          (addVars m time_steps 0 CONTINUOUS ''P_solar_household''))
        (\<lambda>(m, P_solar_household).
      and_then (gp_call refused (Call_addVars time_steps 0 CONTINUOUS ''P_solar_battery'')
          (addVars m time_steps 0 CONTINUOUS ''P_solar_battery''))
        (\<lambda>(m, P_solar_battery).
      and_then (gp_call refused (Call_addVars time_steps 0 CONTINUOUS ''P_solar_grid'')
          (addVars m time_steps 0 CONTINUOUS ''P_solar_grid''))
        (\<lambda>(m, P_solar_grid).
      and_then (gp_call refused (Call_addVars time_steps 0 CONTINUOUS ''P_battery_household'')
          (addVars m time_steps 0 CONTINUOUS ''P_battery_household''))
        (\<lambda>(m, P_battery_household).
      and_then (gp_call refused (Call_addVars time_steps 0 CONTINUOUS ''P_grid_battery'')
          (addVars m time_steps 0 CONTINUOUS ''P_grid_battery''))
        (\<lambda>(m, P_grid_battery).
      and_then (gp_call refused (Call_addVars time_steps 0 CONTINUOUS ''P_grid_household'')
          (addVars m time_steps 0 CONTINUOUS ''P_grid_household''))
        (\<lambda>(m, P_grid_household).
      and_then (gp_call refused (Call_addVars time_steps 0 CONTINUOUS ''SE'')
          (addVars m time_steps 0 CONTINUOUS ''SE''))
        (\<lambda>(m, SE).
      and_then (gp_call refused (Call_addVars time_steps 0 BINARY ''BC'')
          (addVars m time_steps 0 BINARY ''BC''))
        (\<lambda>(m, BC).
      and_then (gp_call refused (Call_addVars time_steps 0 BINARY ''BD'')
          (addVars m time_steps 0 BINARY ''BD''))
        (\<lambda>(m, BD).
      and_then (gp_call refused (Call_addVars time_steps 0 BINARY ''GF'')
          (addVars m time_steps 0 BINARY ''GF''))
        (\<lambda>(m, GF).
      and_then (collect time_steps
          (objective_term refused P_grid_household P_grid_battery P_solar_grid buy_rates
             cost_params))
        (\<lambda>terms.
      and_then (gp_call refused (Call_quicksum terms) (QuickSum terms)) (\<lambda>obj.
      and_then (gp_call refused (Call_setObjective obj MINIMIZE) (setObjective m obj MINIMIZE))
        (\<lambda>m.
      and_then (for_loop time_steps
          (solar_balance refused d P_solar_household P_solar_battery P_solar_grid) m) (\<lambda>m.
      and_then (for_loop time_steps
          (load_balance refused d P_solar_household P_battery_household P_grid_household) m)
        (\<lambda>m.
      and_then (for_loop time_steps
          (battery_dynamics refused battery_params SE P_solar_battery P_grid_battery
             P_battery_household) m) (\<lambda>m.
      and_then (for_loop time_steps (soc_limits refused battery_params SE) m) (\<lambda>m.
      and_then (for_loop time_steps
          (charge_limit refused battery_params P_solar_battery P_grid_battery) m) (\<lambda>m.
      and_then (for_loop time_steps
          (discharge_limit refused battery_params P_battery_household) m) (\<lambda>m.
      and_then (for_loop time_steps
          (mode_binary refused battery_params P_solar_battery P_grid_battery
             P_battery_household BC BD) m) (\<lambda>m.
      and_then (for_loop time_steps (no_simultaneous refused BC BD) m) (\<lambda>m.
      and_then (for_loop time_steps
          (grid_flow refused d battery_params P_grid_household P_grid_battery P_solar_grid GF)
          m) (\<lambda>m.
      Inr (m,
        [''P_solar_household'' \<mapsto> P_solar_household,
         ''P_solar_battery'' \<mapsto> P_solar_battery,
         ''P_solar_grid'' \<mapsto> P_solar_grid,
         ''P_battery_household'' \<mapsto> P_battery_household,
         ''P_grid_battery'' \<mapsto> P_grid_battery,
         ''P_grid_household'' \<mapsto> P_grid_household,
         ''SE'' \<mapsto> SE,
         ''BC'' \<mapsto> BC,
         ''BD'' \<mapsto> BD,
         ''GF'' \<mapsto> GF]))))))))))))))))))))))))))"

subsection \<open>What the builder returns, written out\<close>

text \<open>
  The constraints of step \<open>t\<close> and the summand of the objective, with every lookup
  resolved. They are what the loops above add when none of their lookups raises.
\<close>

definition solar_balance_constr :: "data \<Rightarrow> nat \<Rightarrow> constr" where
  "solar_balance_constr d t =
     \<lparr>lhs = Add (Add (Var (''P_solar_household'', t)) (Var (''P_solar_battery'', t)))
              (Var (''P_solar_grid'', t)),
      sense = EQ, rhs = Const (the (solar_production d) ! t),
      cname = (''solar_balance_'', t)\<rparr>"

definition load_balance_constr :: "data \<Rightarrow> nat \<Rightarrow> constr" where
  "load_balance_constr d t =
     \<lparr>lhs = Add (Add (Var (''P_solar_household'', t)) (Var (''P_battery_household'', t)))
              (Var (''P_grid_household'', t)),
      sense = EQ, rhs = Const (the (load_demand d) ! t),
      cname = (''load_balance_'', t)\<rparr>"

definition battery_dynamics_constr :: "params \<Rightarrow> nat \<Rightarrow> constr" where
  "battery_dynamics_constr battery_params t =
     \<lparr>lhs = Var (''SE'', t), sense = EQ,
      rhs = Sub (Add (if t = 0
                      then Const (the (battery_params ''initial_soc'')
                                  * the (battery_params ''capacity_kwh''))
                      else Var (''SE'', t - 1))
                     (Scale (Scale (Add (Var (''P_solar_battery'', t))
                                        (Var (''P_grid_battery'', t)))
                               conversion_factor)
                        (the (battery_params ''charge_efficiency''))))
                (Div (Scale (Var (''P_battery_household'', t)) conversion_factor)
                   (the (battery_params ''discharge_efficiency''))),
      cname = (''battery_dynamics_'', t)\<rparr>"

definition soc_limits_constrs :: "params \<Rightarrow> nat \<Rightarrow> constr list" where
  "soc_limits_constrs battery_params t =
     [\<lparr>lhs = Var (''SE'', t), sense = GE,
       rhs = Const (the (battery_params ''min_soc'') * the (battery_params ''capacity_kwh'')),
       cname = (''soc_min_'', t)\<rparr>,
      \<lparr>lhs = Var (''SE'', t), sense = LE,
       rhs = Const (the (battery_params ''max_soc'') * the (battery_params ''capacity_kwh'')),
       cname = (''soc_max_'', t)\<rparr>]"

definition charge_limit_constr :: "params \<Rightarrow> nat \<Rightarrow> constr" where
  "charge_limit_constr battery_params t =
     \<lparr>lhs = Add (Var (''P_solar_battery'', t)) (Var (''P_grid_battery'', t)), sense = LE,
      rhs = Const (the (battery_params ''max_charge_rate'')),
      cname = (''charge_limit_'', t)\<rparr>"

definition discharge_limit_constr :: "params \<Rightarrow> nat \<Rightarrow> constr" where
  "discharge_limit_constr battery_params t =
     \<lparr>lhs = Var (''P_battery_household'', t), sense = LE,
      rhs = Const (the (battery_params ''max_discharge_rate'')),
      cname = (''discharge_limit_'', t)\<rparr>"

definition mode_binary_constrs :: "params \<Rightarrow> nat \<Rightarrow> constr list" where
  "mode_binary_constrs battery_params t =
     [\<lparr>lhs = Add (Var (''P_solar_battery'', t)) (Var (''P_grid_battery'', t)), sense = LE,
       rhs = Scale (Var (''BC'', t)) (the (battery_params ''max_charge_rate'')),
       cname = (''charge_binary_'', t)\<rparr>,
      \<lparr>lhs = Var (''P_battery_household'', t), sense = LE,
       rhs = Scale (Var (''BD'', t)) (the (battery_params ''max_discharge_rate'')),
       cname = (''discharge_binary_'', t)\<rparr>]"

definition no_simultaneous_constr :: "nat \<Rightarrow> constr" where
  "no_simultaneous_constr t =
     \<lparr>lhs = Add (Var (''BC'', t)) (Var (''BD'', t)), sense = LE, rhs = Const 1,
      cname = (''no_simultaneous_'', t)\<rparr>"

definition grid_flow_constrs :: "data \<Rightarrow> params \<Rightarrow> nat \<Rightarrow> constr list" where
  "grid_flow_constrs d battery_params t =
     [\<lparr>lhs = Add (Var (''P_grid_household'', t)) (Var (''P_grid_battery'', t)), sense = LE,
       rhs = Scale (Var (''GF'', t))
               (the (battery_params ''max_charge_rate'') + Max (set (the (load_demand d)))),
       cname = (''grid_flow_from_'', t)\<rparr>,
      \<lparr>lhs = Var (''P_solar_grid'', t), sense = LE,
       rhs = Scale (Sub (Const 1) (Var (''GF'', t))) (Max (set (the (solar_production d)))),
       cname = (''grid_flow_to_'', t)\<rparr>]"

definition objective_summand :: "(nat \<rightharpoonup> real) \<Rightarrow> params \<Rightarrow> nat \<Rightarrow> linexpr" where
  "objective_summand buy_rates cost_params t =
     Sub (Scale (Scale (Add (Var (''P_grid_household'', t)) (Var (''P_grid_battery'', t)))
                   conversion_factor)
            (the (buy_rates t)))
         (Scale (Scale (Var (''P_solar_grid'', t)) conversion_factor)
            (the (cost_params ''sell_price'')))"

definition declared :: "string \<Rightarrow> vtype \<Rightarrow> nat \<Rightarrow> var_decl list" where
  "declared n ty T = map (\<lambda>t. \<lparr>vname = (n, t), lb = 0, vtype = ty\<rparr>) [0..<T]"

definition built_model :: "data \<Rightarrow> params \<Rightarrow> params \<Rightarrow> (nat \<rightharpoonup> real) \<Rightarrow> nat \<Rightarrow> model" where
  "built_model d battery_params cost_params buy_rates T =
     \<lparr>mname = ''PV_Battery_Optimization'',
      mvars = declared ''P_solar_household'' CONTINUOUS T
            @ declared ''P_solar_battery'' CONTINUOUS T
            @ declared ''P_solar_grid'' CONTINUOUS T
            @ declared ''P_battery_household'' CONTINUOUS T
            @ declared ''P_grid_battery'' CONTINUOUS T
            @ declared ''P_grid_household'' CONTINUOUS T
            @ declared ''SE'' CONTINUOUS T
            @ declared ''BC'' BINARY T
            @ declared ''BD'' BINARY T
            @ declared ''GF'' BINARY T,
      objective = QuickSum (map (objective_summand buy_rates cost_params) [0..<T]),
      objective_sense = MINIMIZE,
      constrs = map (solar_balance_constr d) [0..<T]
              @ map (load_balance_constr d) [0..<T]
              @ map (battery_dynamics_constr battery_params) [0..<T]
              @ concat (map (soc_limits_constrs battery_params) [0..<T])
              @ map (charge_limit_constr battery_params) [0..<T]
              @ map (discharge_limit_constr battery_params) [0..<T]
              @ concat (map (mode_binary_constrs battery_params) [0..<T])
              @ map no_simultaneous_constr [0..<T]
              @ concat (map (grid_flow_constrs d battery_params) [0..<T])\<rparr>"

definition built_vars :: "nat \<Rightarrow> vars_dict" where
  "built_vars T =
     [''P_solar_household'' \<mapsto> var_family ''P_solar_household'' [0..<T],
      ''P_solar_battery'' \<mapsto> var_family ''P_solar_battery'' [0..<T],
      ''P_solar_grid'' \<mapsto> var_family ''P_solar_grid'' [0..<T],
      ''P_battery_household'' \<mapsto> var_family ''P_battery_household'' [0..<T],
      ''P_grid_battery'' \<mapsto> var_family ''P_grid_battery'' [0..<T],
      ''P_grid_household'' \<mapsto> var_family ''P_grid_household'' [0..<T],
      ''SE'' \<mapsto> var_family ''SE'' [0..<T],
      ''BC'' \<mapsto> var_family ''BC'' [0..<T],
      ''BD'' \<mapsto> var_family ''BD'' [0..<T],
      ''GF'' \<mapsto> var_family ''GF'' [0..<T]]"

text \<open>
  The lookups of one step: the buy rate and the sell price (objective), the two series
  (balances and maxima) and the battery parameters. The initial state of charge is read
  at step \<open>0\<close> only. A step is in order when its lookups succeed and the discharge
  efficiency, by which it divides, is not zero.
\<close>

definition lookups_ok :: "data \<Rightarrow> params \<Rightarrow> params \<Rightarrow> (nat \<rightharpoonup> real) \<Rightarrow> nat \<Rightarrow> bool" where
  "lookups_ok d battery_params cost_params buy_rates t =
     (buy_rates t \<noteq> None \<and> cost_params ''sell_price'' \<noteq> None
      \<and> (case solar_production d of None \<Rightarrow> False | Some xs \<Rightarrow> t < length xs)
      \<and> (case load_demand d of None \<Rightarrow> False | Some xs \<Rightarrow> t < length xs)
      \<and> (t = 0 \<longrightarrow> battery_params ''initial_soc'' \<noteq> None)
      \<and> battery_params ''capacity_kwh'' \<noteq> None
      \<and> battery_params ''charge_efficiency'' \<noteq> None
      \<and> battery_params ''discharge_efficiency'' \<noteq> None
      \<and> battery_params ''min_soc'' \<noteq> None
      \<and> battery_params ''max_soc'' \<noteq> None
      \<and> battery_params ''max_charge_rate'' \<noteq> None
      \<and> battery_params ''max_discharge_rate'' \<noteq> None)"

definition step_ok :: "data \<Rightarrow> params \<Rightarrow> params \<Rightarrow> (nat \<rightharpoonup> real) \<Rightarrow> nat \<Rightarrow> bool" where
  "step_ok d battery_params cost_params buy_rates t =
     (lookups_ok d battery_params cost_params buy_rates t
      \<and> battery_params ''discharge_efficiency'' \<noteq> Some 0)"

section \<open>The solve orchestrator (solver.py)\<close>

subsection \<open>The engine\<close>

text \<open>
  The engine is a black box. A call of \<open>setParam\<close> is accepted or raises; \<open>optimize\<close>
  raises or leaves a termination status, a solution count and, when they can be read,
  the objective value and the values of the variables. The status codes are the
  integers of \<open>GRB\<close>.
\<close>

definition GRB_OPTIMAL :: int where
  "GRB_OPTIMAL = 2"

definition GRB_INFEASIBLE :: int where
  "GRB_INFEASIBLE = 3"

definition GRB_INF_OR_UNBD :: int where
  "GRB_INF_OR_UNBD = 4"

definition GRB_UNBOUNDED :: int where
  "GRB_UNBOUNDED = 5"

definition GRB_TIME_LIMIT :: int where
  "GRB_TIME_LIMIT = 9"

definition GRB_NUMERIC :: int where
  "GRB_NUMERIC = 12"

record solution =
  status :: int
  SolCount :: nat
  objVal :: "real option"
  var_X :: "(var \<Rightarrow> real) option"

record engine =
  setParam :: "string \<Rightarrow> real \<Rightarrow> py_error option"
  optimize :: "model \<Rightarrow> (string \<rightharpoonup> real) \<Rightarrow> py_error + solution"

definition set_param ::
  "engine \<Rightarrow> string \<Rightarrow> real \<Rightarrow> (string \<rightharpoonup> real) \<Rightarrow> py_error + (string \<rightharpoonup> real)" where
  "set_param eng name v ps =
     (case setParam eng name v of Some e \<Rightarrow> Inl e | None \<Rightarrow> Inr (ps(name \<mapsto> v)))"

text \<open>
  The attributes \<open>objVal\<close> of the model and \<open>X\<close> of a variable; the argument is what the
  last \<open>optimize\<close> left in the model, \<open>None\<close> when the model was never optimised.
\<close>

definition attr_objVal :: "solution option \<Rightarrow> py_error + real" where
  "attr_objVal st =
     (case st of
        None \<Rightarrow> Inl AttributeError
      | Some s \<Rightarrow> (case objVal s of None \<Rightarrow> Inl AttributeError | Some v \<Rightarrow> Inr v))"

definition attr_X :: "solution option \<Rightarrow> var \<Rightarrow> py_error + real" where
  "attr_X st v =
     (case st of
        None \<Rightarrow> Inl AttributeError
      | Some s \<Rightarrow> (case var_X s of None \<Rightarrow> Inl AttributeError | Some x \<Rightarrow> Inr (x v)))"

text \<open>
  What the engine promises of the attributes it leaves: when it has proven an optimum or
  holds at least one solution, the objective value and the values of the variables can
  be read. Nothing is promised of the attributes when there is no solution.
\<close>

definition attributes_available :: "solution \<Rightarrow> bool" where
  "attributes_available s =
     (status s = GRB_OPTIMAL \<or> 0 < SolCount s \<longrightarrow> objVal s \<noteq> None \<and> var_X s \<noteq> None)"

subsection \<open>solve_milp\<close>

text \<open>What \<open>solve_milp\<close> prints; every path prints one line.\<close>

datatype message =
    Optimal_solution_found real
  | Time_limit_reached real
  | Optimization_failed int
  | Gurobi_error
  | Error_solving_model

text \<open>The two \<open>except\<close> clauses.\<close>

definition except_clause :: "py_error \<Rightarrow> message" where
  "except_clause e = (if e = GurobiError then Gurobi_error else Error_solving_model)"

text \<open>The first half of the \<open>try\<close> block: the parameters, then the call of the engine.\<close>

definition set_params_and_optimize ::
  "engine \<Rightarrow> model \<Rightarrow> real option \<Rightarrow> real option \<Rightarrow> bool \<Rightarrow> py_error + solution" where
  "set_params_and_optimize eng m time_limit gap verbose =
     and_then (case time_limit of
                 None \<Rightarrow> Inr Map.empty
               | Some seconds \<Rightarrow> set_param eng ''TimeLimit'' seconds Map.empty) (\<lambda>ps.
     and_then (case gap of None \<Rightarrow> Inr ps | Some g \<Rightarrow> set_param eng ''MIPGap'' g ps) (\<lambda>ps.
     and_then (if verbose then set_param eng ''OutputFlag'' 1 ps
               else set_param eng ''OutputFlag'' 0 ps) (\<lambda>ps.
     optimize eng m ps)))"

text \<open>
  \<open>solve_milp\<close> gives the boolean it returns, the line it prints and what the call
  leaves in the model. The format string of a line is evaluated before the
  \<open>return\<close>, so that an objective value that cannot be read raises inside the
  \<open>try\<close> block.
\<close>

definition solve_milp ::
  "engine \<Rightarrow> model \<Rightarrow> real option \<Rightarrow> real option \<Rightarrow> bool \<Rightarrow> bool \<times> message \<times> solution option" where
  "solve_milp eng m time_limit gap verbose =
     (case set_params_and_optimize eng m time_limit gap verbose of
        Inl e \<Rightarrow> (False, except_clause e, None)
      | Inr s \<Rightarrow>
          (case (if status s = GRB_OPTIMAL then
                   and_then (attr_objVal (Some s)) (\<lambda>v. Inr (True, Optimal_solution_found v))
                 else if status s = GRB_TIME_LIMIT then
                   and_then (attr_objVal (Some s)) (\<lambda>v.
                     Inr (if 0 < SolCount s then True else False, Time_limit_reached v))
                 else Inr (False, Optimization_failed (status s))) of
             Inl e \<Rightarrow> (False, except_clause e, Some s)
           | Inr (ok, line) \<Rightarrow> (ok, line, Some s)))"

subsection \<open>extract_results\<close>

text \<open>
  The result set refers to objects, and two of its entries may refer to the same one.
  The store maps an address to the object there; a new object gets the next free
  address. The dictionaries \<open>data\<close> and \<open>results\<close> map a key to an address.
\<close>

datatype pyobj = TimeSeq "timestamp list" | FloatSeq "real list" | Float real

type_synonym addr = nat

record heap =
  objs :: "addr \<Rightarrow> pyobj"
  next_free :: addr

definition alloc :: "heap \<Rightarrow> pyobj \<Rightarrow> heap \<times> addr" where
  "alloc h v = (h\<lparr>objs := (objs h)(next_free h := v), next_free := Suc (next_free h)\<rparr>,
                next_free h)"

definition len :: "heap \<Rightarrow> addr \<Rightarrow> py_error + nat" where
  "len h a =
     (case objs h a of
        TimeSeq ts \<Rightarrow> Inr (length ts)
      | FloatSeq xs \<Rightarrow> Inr (length xs)
      | Float x \<Rightarrow> Inl TypeError)"

type_synonym refs = "string \<rightharpoonup> addr"

text \<open>\<open>vars_dict[name][t]\<close> and \<open>vars_dict[name][t].X\<close>\<close>

definition var_at :: "vars_dict \<Rightarrow> string \<Rightarrow> nat \<Rightarrow> py_error + var" where
  "var_at vars_dict name t =
     and_then (dict_get vars_dict name) (\<lambda>family. dict_get family t)"

definition var_value ::
  "vars_dict \<Rightarrow> solution option \<Rightarrow> string \<Rightarrow> nat \<Rightarrow> py_error + real" where
  "var_value vars_dict st name t =
     and_then (var_at vars_dict name t) (\<lambda>v.
     attr_X st v)"

text \<open>\<open>results[key] = [...]\<close>: the list is a new object.\<close>

definition store_list ::
  "heap \<Rightarrow> refs \<Rightarrow> string \<Rightarrow> py_error + real list \<Rightarrow> py_error + heap \<times> refs" where
  "store_list h results key xs_or_error =
     and_then xs_or_error (\<lambda>xs.
     let (h', a) = alloc h (FloatSeq xs) in Inr (h', results(key \<mapsto> a)))"

definition soc_value ::
  "vars_dict \<Rightarrow> solution option \<Rightarrow> params \<Rightarrow> nat \<Rightarrow> py_error + real" where
  "soc_value vars_dict st battery_params t =
     and_then (var_value vars_dict st ''SE'' t) (\<lambda>x.
     and_then (dict_get battery_params ''capacity_kwh'') (\<lambda>capacity_kwh.
     and_then (py_truediv x capacity_kwh) (\<lambda>q.
     Inr (q * 100))))"

definition extract_results ::
  "heap \<Rightarrow> solution option \<Rightarrow> vars_dict \<Rightarrow> refs \<Rightarrow> params \<Rightarrow> py_error + heap \<times> refs" where
  "extract_results h st vars_dict data battery_params =
     and_then (dict_get data ''time'') (\<lambda>times.
     and_then (len h times) (\<lambda>T.
     let time_steps = [0..<T] in
     and_then (dict_get data ''time'') (\<lambda>r_time.
     let results = [''time'' \<mapsto> r_time] in
     and_then (dict_get data ''solar_production'') (\<lambda>r_solar.
     let results = results(''solar_production'' \<mapsto> r_solar) in
     and_then (dict_get data ''load_demand'') (\<lambda>r_load.
     let results = results(''load_demand'' \<mapsto> r_load) in
     and_then (store_list h results ''P_solar_household''
         (collect time_steps (var_value vars_dict st ''P_solar_household''))) (\<lambda>(h, results).
     and_then (store_list h results ''P_solar_battery''
         (collect time_steps (var_value vars_dict st ''P_solar_battery''))) (\<lambda>(h, results).
     and_then (store_list h results ''P_solar_grid''
         (collect time_steps (var_value vars_dict st ''P_solar_grid''))) (\<lambda>(h, results).
     and_then (store_list h results ''P_battery_household''
         (collect time_steps (var_value vars_dict st ''P_battery_household'')))
       (\<lambda>(h, results).
     and_then (store_list h results ''P_grid_battery''
         (collect time_steps (var_value vars_dict st ''P_grid_battery''))) (\<lambda>(h, results).
     and_then (store_list h results ''P_grid_household''
         (collect time_steps (var_value vars_dict st ''P_grid_household''))) (\<lambda>(h, results).
     and_then (store_list h results ''SE''
         (collect time_steps (var_value vars_dict st ''SE''))) (\<lambda>(h, results).
     and_then (store_list h results ''SoC''
         (collect time_steps (soc_value vars_dict st battery_params))) (\<lambda>(h, results).
     and_then (store_list h results ''BC''
         (collect time_steps (var_value vars_dict st ''BC''))) (\<lambda>(h, results).
     and_then (store_list h results ''BD''
         (collect time_steps (var_value vars_dict st ''BD''))) (\<lambda>(h, results).
     and_then (store_list h results ''GF''
         (collect time_steps (var_value vars_dict st ''GF''))) (\<lambda>(h, results).
     and_then (attr_objVal st) (\<lambda>cost.
     let (h, a) = alloc h (Float cost) in
     Inr (h, results(''total_cost'' \<mapsto> a)))))))))))))))))))"

text \<open>Reading a list of floats, or a float, out of a result set: \<open>results[key]\<close>.\<close>

definition float_list_at :: "heap \<Rightarrow> refs \<Rightarrow> string \<Rightarrow> real list option" where
  "float_list_at h results key =
     (case results key of
        None \<Rightarrow> None
      | Some a \<Rightarrow> (case objs h a of FloatSeq xs \<Rightarrow> Some xs | _ \<Rightarrow> None))"

definition float_at :: "heap \<Rightarrow> refs \<Rightarrow> string \<Rightarrow> real option" where
  "float_at h results key =
     (case results key of
        None \<Rightarrow> None
      | Some a \<Rightarrow> (case objs h a of Float x \<Rightarrow> Some x | _ \<Rightarrow> None))"

subsection \<open>main, from the call of solve_milp on\<close>

text \<open>
  \<open>main\<close> calls \<open>extract_results\<close> in the branch where \<open>solve_milp\<close> returned true, and
  nowhere else; \<open>None\<close> is the other branch, where no result set is built.
\<close>

definition main_solve ::
  "engine \<Rightarrow> heap \<Rightarrow> model \<Rightarrow> vars_dict \<Rightarrow> refs \<Rightarrow> params \<Rightarrow> (py_error + heap \<times> refs) option" where
  "main_solve eng h m vars_dict data battery_params =
     (case solve_milp eng m (Some 300) (Some 0.01) True of
        (ok, line, st) \<Rightarrow>
          if ok then Some (extract_results h st vars_dict data battery_params) else None)"

subsection \<open>The parameters of main.py, and a run of two steps\<close>

definition main_battery_params :: params where
  "main_battery_params =
     [''capacity_kwh'' \<mapsto> 4.8, ''min_soc'' \<mapsto> 0.11, ''max_soc'' \<mapsto> 1,
      ''initial_soc'' \<mapsto> 0.22, ''charge_efficiency'' \<mapsto> 0.95,
      ''discharge_efficiency'' \<mapsto> 0.95, ''max_charge_rate'' \<mapsto> 2780,
      ''max_discharge_rate'' \<mapsto> 2370]"

definition main_cost_params :: params where
  "main_cost_params =
     [''day_rate'' \<mapsto> 0.3634, ''night_rate'' \<mapsto> 0.1792, ''boost_rate'' \<mapsto> 0.1052,
      ''sell_price'' \<mapsto> 0.195]"

text \<open>Two steps, five minutes apart at three in the morning, with their boost rates.\<close>

definition two_steps :: data where
  "two_steps =
     \<lparr>time = Some [\<lparr>hour = 3, minute = 0\<rparr>, \<lparr>hour = 3, minute = 5\<rparr>],
      solar_production = Some [0, 1500], load_demand = Some [400, 300]\<rparr>"

definition two_rates :: "nat \<rightharpoonup> real" where
  "two_rates = [0 \<mapsto> 0.1052, 1 \<mapsto> 0.1052]"

text \<open>
  A library that refuses no call, and one whose constructor refuses the licence file
  that the process environment names.
\<close>

definition no_refusal :: gurobipy where
  "no_refusal = (\<lambda>c. False)"


text \<open>
  An assignment of the variables of that run: the grid serves the load at step 0; at
  step 1 the panels serve the load and charge the battery. Every variable that is not
  named is zero.
\<close>

definition two_steps_plan :: "var \<Rightarrow> real" where
  "two_steps_plan v =
     (if v = (''P_grid_household'', 0) then 400
      else if v = (''SE'', 0) then 1.056
      else if v = (''GF'', 0) then 1
      else if v = (''P_solar_household'', 1) then 300
      else if v = (''P_solar_battery'', 1) then 1200
      else if v = (''SE'', 1) then 1.151
      else if v = (''BC'', 1) then 1
      else 0)"

text \<open>
  An engine that accepts every parameter and stops at the time limit with that
  assignment as its incumbent; an engine that stops at the time limit without an
  incumbent and leaves an objective value that can be read; and an engine that refuses
  every parameter.
\<close>

definition incumbent_engine :: engine where
  "incumbent_engine =
     \<lparr>setParam = (\<lambda>name v. None),
      optimize = (\<lambda>m ps. Inr \<lparr>status = GRB_TIME_LIMIT, SolCount = 1,
                                    objVal = Some (263 / 75000),
                                    var_X = Some two_steps_plan\<rparr>)\<rparr>"

definition stalled_engine :: engine where
  "stalled_engine =
     \<lparr>setParam = (\<lambda>name v. None),
      optimize = (\<lambda>m ps. Inr \<lparr>status = GRB_TIME_LIMIT, SolCount = 0,
                                    objVal = Some (10 ^ 100), var_X = None\<rparr>)\<rparr>"

definition refusing_engine :: engine where
  "refusing_engine =
     \<lparr>setParam = (\<lambda>name v. Some GurobiError),
      optimize = (\<lambda>m ps. Inl GurobiError)\<rparr>"

text \<open>The store of that run: the three input series are its first three objects.\<close>

definition two_steps_heap :: heap where
  "two_steps_heap =
     \<lparr>objs = (\<lambda>a. if a = 0 then TimeSeq [\<lparr>hour = 3, minute = 0\<rparr>, \<lparr>hour = 3, minute = 5\<rparr>]
                   else if a = 1 then FloatSeq [0, 1500]
                   else if a = 2 then FloatSeq [400, 300]
                   else Float 0),
      next_free = 3\<rparr>"

definition two_steps_refs :: refs where
  "two_steps_refs = [''time'' \<mapsto> 0, ''solar_production'' \<mapsto> 1, ''load_demand'' \<mapsto> 2]"

text \<open>
  The same run with a battery of no capacity: the grid serves the load at step 0, the
  panels serve the load at step 1 and the rest of their production is sold; the
  battery stays empty. An engine that proves this assignment optimal.
\<close>

definition no_capacity_params :: params where
  "no_capacity_params = main_battery_params(''capacity_kwh'' \<mapsto> 0)"

definition grid_only_plan :: "var \<Rightarrow> real" where
  "grid_only_plan v =
     (if v = (''P_grid_household'', 0) then 400
      else if v = (''GF'', 0) then 1
      else if v = (''P_solar_household'', 1) then 300
      else if v = (''P_solar_grid'', 1) then 1200
      else 0)"

definition grid_only_engine :: engine where
  "grid_only_engine =
     \<lparr>setParam = (\<lambda>name v. None),
      optimize = (\<lambda>m ps. Inr \<lparr>status = GRB_OPTIMAL, SolCount = 1,
                                    objVal = Some (263 / 75000 - 39 / 2000),
                                    var_X = Some grid_only_plan\<rparr>)\<rparr>"

section \<open>Exceptions and lookups\<close>

lemma and_then_Inr [simp]: "and_then (Inr v) f = f v"
  by (simp add: and_then_def)

lemma and_then_Inl [simp]: "and_then (Inl e) f = Inl e"
  by (simp add: and_then_def)

lemma and_then_eq_Inr:
  "and_then r f = Inr y \<longleftrightarrow> (\<exists>v. r = Inr v \<and> f v = Inr y)"
  by (cases r) simp_all

lemma dict_get_eq_Inr [simp]: "dict_get m k = Inr v \<longleftrightarrow> m k = Some v"
  by (simp add: dict_get_def split: option.splits)

lemma var_family_upt [simp]: "var_family n [0..<T] t = Some v \<longleftrightarrow> t < T \<and> v = (n, t)"
  by (auto simp: var_family_def)

lemma seq_get_eq_Inr [simp]: "seq_get xs i = Inr v \<longleftrightarrow> i < length xs \<and> v = xs ! i"
  by (auto simp: seq_get_def)

lemma data_solar_production_eq_Inr [simp]:
  "data_solar_production d = Inr xs \<longleftrightarrow> solar_production d = Some xs"
  by (simp add: data_solar_production_def split: option.splits)

lemma data_load_demand_eq_Inr [simp]:
  "data_load_demand d = Inr xs \<longleftrightarrow> load_demand d = Some xs"
  by (simp add: data_load_demand_def split: option.splits)

lemma data_time_eq_Inr [simp]: "data_time d = Inr ts \<longleftrightarrow> time d = Some ts"
  by (simp add: data_time_def split: option.splits)

lemma max_from_fold: "max_from m xs = fold max xs m"
  by (induction xs arbitrary: m) (auto simp: max_def)

lemma max_from_Max: "max_from m xs = Max (set (m # xs))"
  by (simp only: max_from_fold Max.set_eq_fold)

lemma py_max_eq_Inr [simp]: "py_max xs = Inr v \<longleftrightarrow> xs \<noteq> [] \<and> v = Max (set xs)"
  by (cases xs) (auto simp: py_max_def max_from_Max)

lemma and_then_eq_Inl:
  "and_then r f = Inl e \<longleftrightarrow> r = Inl e \<or> (\<exists>v. r = Inr v \<and> f v = Inl e)"
  by (cases r) simp_all

lemma and_thenE:
  assumes "and_then r f = Inr y"
  obtains v where "r = Inr v" and "f v = Inr y"
  using assms by (auto simp: and_then_eq_Inr)


section \<open>Calls that the library may refuse\<close>

lemma gp_call_eq_Inr [simp]: "gp_call refused c v = Inr w \<longleftrightarrow> \<not> refused c \<and> w = v"
  by (auto simp: gp_call_def)

lemma gp_call_eq_Inl [simp]: "gp_call refused c v = Inl e \<longleftrightarrow> refused c \<and> e = GurobiError"
  by (auto simp: gp_call_def)

lemma expr_add_eq_Inr [simp]:
  "expr_add refused a b = Inr e \<longleftrightarrow> \<not> refused (Op_add a b) \<and> e = Add a b"
  by (simp add: expr_add_def)

lemma expr_sub_eq_Inr [simp]:
  "expr_sub refused a b = Inr e \<longleftrightarrow> \<not> refused (Op_sub a b) \<and> e = Sub a b"
  by (simp add: expr_sub_def)

lemma expr_mul_eq_Inr [simp]:
  "expr_mul refused a r = Inr e \<longleftrightarrow> \<not> refused (Op_mul a r) \<and> e = Scale a r"
  by (simp add: expr_mul_def)

lemma expr_truediv_eq_Inr [simp]:
  "expr_truediv refused a r = Inr e \<longleftrightarrow> r \<noteq> 0 \<and> \<not> refused (Op_div a r) \<and> e = Div a r"
  by (simp add: expr_truediv_def)

lemma add_constr_eq_Inr [simp]:
  "add_constr refused m a s b n = Inr m' \<longleftrightarrow>
     \<not> refused (Op_cmp a s b)
     \<and> \<not> refused (Call_addConstr \<lparr>lhs = a, sense = s, rhs = b, cname = n\<rparr>)
     \<and> m' = m\<lparr>constrs := constrs m @ [\<lparr>lhs = a, sense = s, rhs = b, cname = n\<rparr>]\<rparr>"
  by (auto simp: add_constr_def and_then_eq_Inr addConstr_def)

lemma expr_add_eq_Inl [simp]:
  "expr_add refused a b = Inl e \<longleftrightarrow> refused (Op_add a b) \<and> e = GurobiError"
  by (simp add: expr_add_def)

lemma expr_sub_eq_Inl [simp]:
  "expr_sub refused a b = Inl e \<longleftrightarrow> refused (Op_sub a b) \<and> e = GurobiError"
  by (simp add: expr_sub_def)

lemma expr_mul_eq_Inl [simp]:
  "expr_mul refused a r = Inl e \<longleftrightarrow> refused (Op_mul a r) \<and> e = GurobiError"
  by (simp add: expr_mul_def)

lemma expr_truediv_eq_Inl [simp]:
  "expr_truediv refused a r = Inl e \<longleftrightarrow>
     (r = 0 \<and> e = ZeroDivisionError) \<or> (r \<noteq> 0 \<and> refused (Op_div a r) \<and> e = GurobiError)"
  by (auto simp: expr_truediv_def)

lemma add_constr_eq_Inl [simp]:
  "add_constr refused m a s b n = Inl e \<longleftrightarrow>
     (refused (Op_cmp a s b)
      \<or> refused (Call_addConstr \<lparr>lhs = a, sense = s, rhs = b, cname = n\<rparr>))
     \<and> e = GurobiError"
  by (auto simp: add_constr_def and_then_eq_Inl)

lemma dict_get_eq_Inl [simp]: "dict_get m k = Inl e \<longleftrightarrow> m k = None \<and> e = KeyError"
  by (auto simp: dict_get_def split: option.splits)

lemma seq_get_eq_Inl [simp]: "seq_get xs i = Inl e \<longleftrightarrow> \<not> i < length xs \<and> e = IndexError"
  by (auto simp: seq_get_def)

lemma data_solar_production_eq_Inl [simp]:
  "data_solar_production d = Inl e \<longleftrightarrow> solar_production d = None \<and> e = KeyError"
  by (auto simp: data_solar_production_def split: option.splits)

lemma data_load_demand_eq_Inl [simp]:
  "data_load_demand d = Inl e \<longleftrightarrow> load_demand d = None \<and> e = KeyError"
  by (auto simp: data_load_demand_def split: option.splits)

lemma data_time_eq_Inl [simp]: "data_time d = Inl e \<longleftrightarrow> time d = None \<and> e = KeyError"
  by (auto simp: data_time_def split: option.splits)

lemma py_max_eq_Inl [simp]: "py_max xs = Inl e \<longleftrightarrow> xs = [] \<and> e = ValueError"
  by (cases xs) (auto simp: py_max_def)

lemma rur_Inr: "returns_unless_refused refused (Inr v) v"
  by (simp add: returns_unless_refused_def)

lemma rur_gp_call: "returns_unless_refused refused (gp_call refused c v) v"
  by (auto simp: returns_unless_refused_def gp_call_def)

lemma rur_bind:
  assumes "returns_unless_refused refused r v"
    and "returns_unless_refused refused (f v) w"
  shows "returns_unless_refused refused (and_then r f) w"
  using assms by (auto simp: returns_unless_refused_def)

lemma rur_no_refusal:
  assumes "returns_unless_refused refused r v" and "\<forall>c. \<not> refused c"
  shows "r = Inr v"
  using assms by (auto simp: returns_unless_refused_def)

section \<open>The tariff mapper\<close>

lemma rate_of_hour_full:
  assumes "cost_params ''boost_rate'' = Some b"
    and "cost_params ''night_rate'' = Some n"
    and "cost_params ''day_rate'' = Some dy"
  shows "rate_of_hour cost_params h = Inr (band_rate b n dy h)"
  using assms by (simp add: rate_of_hour_def band_rate_def dict_get_def)

lemma rates_loop_full:
  assumes "time d = Some ts"
    and "cost_params ''boost_rate'' = Some b"
    and "cost_params ''night_rate'' = Some n"
    and "cost_params ''day_rate'' = Some dy"
    and "set idx \<subseteq> {0..<length ts}"
  shows "rates_loop d cost_params idx acc =
     Inr (\<lambda>t. if t \<in> set idx then Some (band_rate b n dy (hour (ts ! t))) else acc t)"
  using assms(5)
proof (induction idx arbitrary: acc)
  case Nil
  then show ?case by simp
next
  case (Cons t rest)
  have t: "t < length ts" and rest: "set rest \<subseteq> {0..<length ts}"
    using Cons.prems by auto
  have step: "rates_loop d cost_params (t # rest) acc =
      rates_loop d cost_params rest (acc(t \<mapsto> band_rate b n dy (hour (ts ! t))))"
    using t assms(1) rate_of_hour_full [OF assms(2-4)]
    by (simp add: data_time_def seq_get_def)
  show ?case
    unfolding step Cons.IH [OF rest] by (auto simp: fun_eq_iff)
qed

text \<open>
  C5. Given a timestamp sequence and a rate table holding the three rates,
  \<open>get_time_of_use_rates\<close> does not raise; the mapping it returns has exactly the step
  indices \<open>0 \<le> t < T\<close> as its keys, and gives step \<open>t\<close> the boost rate when the hour
  \<open>h\<close> of its timestamp satisfies \<open>2 \<le> h < 4\<close>, otherwise the night rate when
  \<open>h \<ge> 23\<close> or \<open>h < 8\<close>, otherwise the day rate. The boost band is tested first, so
  it wins over the night band, which contains it.
\<close>

theorem get_time_of_use_rates_bands:
  assumes "time d = Some ts"
    and "cost_params ''boost_rate'' = Some b"
    and "cost_params ''night_rate'' = Some n"
    and "cost_params ''day_rate'' = Some dy"
  shows "\<exists>buy_rates. get_time_of_use_rates d cost_params = Inr buy_rates
     \<and> dom buy_rates = {0..<length ts}
     \<and> (\<forall>t<length ts. buy_rates t = Some
          (if 2 \<le> hour (ts ! t) \<and> hour (ts ! t) < 4 then b
           else if 23 \<le> hour (ts ! t) \<or> hour (ts ! t) < 8 then n
           else dy))"
proof -
  have "get_time_of_use_rates d cost_params =
      Inr (\<lambda>t. if t \<in> set [0..<length ts] then Some (band_rate b n dy (hour (ts ! t)))
               else Map.empty t)"
    using assms(1) rates_loop_full [OF assms, of "[0..<length ts]" Map.empty]
    by (simp add: get_time_of_use_rates_def data_time_def)
  then show ?thesis
    by (auto simp: band_rate_def dom_def)
qed

theorem get_time_of_use_rates_bands_witness:
  "\<exists>buy_rates.
     get_time_of_use_rates
       \<lparr>time = Some [\<lparr>hour = 3, minute = 0\<rparr>, \<lparr>hour = 7, minute = 55\<rparr>,
                     \<lparr>hour = 12, minute = 0\<rparr>, \<lparr>hour = 23, minute = 5\<rparr>],
        solar_production = None, load_demand = None\<rparr>
       [''boost_rate'' \<mapsto> 0.1052, ''night_rate'' \<mapsto> 0.1792, ''day_rate'' \<mapsto> 0.3634]
       = Inr buy_rates
     \<and> dom buy_rates = {0..<4}
     \<and> buy_rates 0 = Some 0.1052 \<and> buy_rates 1 = Some 0.1792
     \<and> buy_rates 2 = Some 0.3634 \<and> buy_rates 3 = Some 0.1792"
  using get_time_of_use_rates_bands
    [of "\<lparr>time = Some [\<lparr>hour = 3, minute = 0\<rparr>, \<lparr>hour = 7, minute = 55\<rparr>,
                       \<lparr>hour = 12, minute = 0\<rparr>, \<lparr>hour = 23, minute = 5\<rparr>],
          solar_production = None, load_demand = None\<rparr>"
        "[\<lparr>hour = 3, minute = 0\<rparr>, \<lparr>hour = 7, minute = 55\<rparr>,
          \<lparr>hour = 12, minute = 0\<rparr>, \<lparr>hour = 23, minute = 5\<rparr>]"
        "[''boost_rate'' \<mapsto> 0.1052, ''night_rate'' \<mapsto> 0.1792, ''day_rate'' \<mapsto> 0.3634]"
        "0.1052" "0.1792" "0.3634"]
  by (auto simp: nth_Cons')

section \<open>The loops of the model builder\<close>

lemma for_loop_okD:
  assumes "for_loop ts body m = Inr m'"
    and "\<And>t m m'. t \<in> set ts \<Longrightarrow> body t m = Inr m' \<Longrightarrow> ok t"
  shows "\<forall>t\<in>set ts. ok t"
  using assms
proof (induction ts arbitrary: m)
  case Nil
  then show ?case by simp
next
  case (Cons t ts)
  from Cons.prems(1) obtain m1 where 1: "body t m = Inr m1" and 2: "for_loop ts body m1 = Inr m'"
    by (auto simp: and_then_eq_Inr)
  have "ok t"
    using Cons.prems(2) 1 by simp
  moreover have "\<forall>t\<in>set ts. ok t"
    using Cons.IH [OF 2] Cons.prems(2) by simp
  ultimately show ?case
    by simp
qed

lemma collect_okD:
  assumes "collect ts f = Inr vs"
    and "\<And>t v. t \<in> set ts \<Longrightarrow> f t = Inr v \<Longrightarrow> ok t"
  shows "\<forall>t\<in>set ts. ok t"
  using assms
proof (induction ts arbitrary: vs)
  case Nil
  then show ?case by simp
next
  case (Cons t ts)
  from Cons.prems(1) obtain v vs' where 1: "f t = Inr v" and 2: "collect ts f = Inr vs'"
    by (auto simp: and_then_eq_Inr)
  have "ok t"
    using Cons.prems(2) 1 by simp
  moreover have "\<forall>t\<in>set ts. ok t"
    using Cons.IH [OF 2] Cons.prems(2) by simp
  ultimately show ?case
    by simp
qed

lemma rur_for_loop:
  assumes "\<And>t m. t \<in> set ts \<Longrightarrow>
      returns_unless_refused refused (body t m) (m\<lparr>constrs := constrs m @ cs t\<rparr>)"
  shows "returns_unless_refused refused (for_loop ts body m)
      (m\<lparr>constrs := constrs m @ concat (map cs ts)\<rparr>)"
  using assms
proof (induction ts arbitrary: m)
  case Nil
  then show ?case by (simp add: rur_Inr)
next
  case (Cons t ts)
  have 1: "returns_unless_refused refused (body t m) (m\<lparr>constrs := constrs m @ cs t\<rparr>)"
    using Cons.prems by simp
  have 2: "returns_unless_refused refused (for_loop ts body (m\<lparr>constrs := constrs m @ cs t\<rparr>))
      (m\<lparr>constrs := constrs m @ concat (map cs (t # ts))\<rparr>)"
    using Cons.IH [of "m\<lparr>constrs := constrs m @ cs t\<rparr>"] Cons.prems by simp
  show ?case
    using rur_bind [where f = "for_loop ts body", OF 1 2] by simp
qed

lemma rur_collect:
  assumes "\<And>t. t \<in> set ts \<Longrightarrow> returns_unless_refused refused (f t) (g t)"
  shows "returns_unless_refused refused (collect ts f) (map g ts)"
  using assms
proof (induction ts)
  case Nil
  then show ?case by (simp add: rur_Inr)
next
  case (Cons t ts)
  have 1: "returns_unless_refused refused (f t) (g t)"
    using Cons.prems by simp
  have 2: "returns_unless_refused refused (collect ts f) (map g ts)"
    using Cons.IH Cons.prems by simp
  have 3: "returns_unless_refused refused
      (and_then (collect ts f) (\<lambda>vs. Inr (g t # vs))) (map g (t # ts))"
    using rur_bind [where f = "\<lambda>vs. Inr (g t # vs)" and w = "map g (t # ts)", OF 2]
    by (simp add: rur_Inr)
  show ?case
    using rur_bind [where f = "\<lambda>v. and_then (collect ts f) (\<lambda>vs. Inr (v # vs))", OF 1 3]
    by simp
qed

lemma dict_get_var_family [simp]:
  "t < T \<Longrightarrow> dict_get (var_family n [0..<T]) t = Inr (n, t)"
  by (simp add: dict_get_def var_family_def)

lemma dict_get_Some: "m k = Some v \<Longrightarrow> dict_get m k = Inr v"
  by (simp add: dict_get_def)

lemma objective_term_okD:
  assumes "objective_term refused (var_family ''P_grid_household'' [0..<T])
      (var_family ''P_grid_battery'' [0..<T]) (var_family ''P_solar_grid'' [0..<T])
      buy_rates cost_params t = Inr e"
  shows "t < T \<and> buy_rates t \<noteq> None \<and> cost_params ''sell_price'' \<noteq> None"
  using assms by (auto simp: objective_term_def and_then_eq_Inr)

lemma rur_objective_term:
  assumes "t < T" and "buy_rates t \<noteq> None" and "cost_params ''sell_price'' \<noteq> None"
  shows "returns_unless_refused refused
     (objective_term refused (var_family ''P_grid_household'' [0..<T])
        (var_family ''P_grid_battery'' [0..<T]) (var_family ''P_solar_grid'' [0..<T])
        buy_rates cost_params t)
     (objective_summand buy_rates cost_params t)"
  using assms
  by (auto simp: returns_unless_refused_def objective_term_def and_then_eq_Inr and_then_eq_Inl
      objective_summand_def)

lemma solar_balance_okD:
  assumes "solar_balance refused d (var_family ''P_solar_household'' [0..<T]) (var_family ''P_solar_battery'' [0..<T]) (var_family ''P_solar_grid'' [0..<T]) t m = Inr m'"
  shows "t < T \<and> (case solar_production d of None \<Rightarrow> False | Some xs \<Rightarrow> t < length xs)"
  using assms
  by (auto simp: solar_balance_def and_then_eq_Inr split: option.splits)

lemma rur_solar_balance:
  assumes "t < T \<and> (case solar_production d of None \<Rightarrow> False | Some xs \<Rightarrow> t < length xs)"
  shows "returns_unless_refused refused
     (solar_balance refused d (var_family ''P_solar_household'' [0..<T]) (var_family ''P_solar_battery'' [0..<T]) (var_family ''P_solar_grid'' [0..<T]) t m)
     (m\<lparr>constrs := constrs m @ [solar_balance_constr d t]\<rparr>)"
  using assms
  by (auto simp: returns_unless_refused_def solar_balance_def and_then_eq_Inr and_then_eq_Inl
      solar_balance_constr_def split: option.splits)

lemma load_balance_okD:
  assumes "load_balance refused d (var_family ''P_solar_household'' [0..<T]) (var_family ''P_battery_household'' [0..<T]) (var_family ''P_grid_household'' [0..<T]) t m = Inr m'"
  shows "t < T \<and> (case load_demand d of None \<Rightarrow> False | Some xs \<Rightarrow> t < length xs)"
  using assms
  by (auto simp: load_balance_def and_then_eq_Inr split: option.splits)

lemma rur_load_balance:
  assumes "t < T \<and> (case load_demand d of None \<Rightarrow> False | Some xs \<Rightarrow> t < length xs)"
  shows "returns_unless_refused refused
     (load_balance refused d (var_family ''P_solar_household'' [0..<T]) (var_family ''P_battery_household'' [0..<T]) (var_family ''P_grid_household'' [0..<T]) t m)
     (m\<lparr>constrs := constrs m @ [load_balance_constr d t]\<rparr>)"
  using assms
  by (auto simp: returns_unless_refused_def load_balance_def and_then_eq_Inr and_then_eq_Inl
      load_balance_constr_def split: option.splits)

lemma battery_dynamics_okD:
  assumes "battery_dynamics refused battery_params (var_family ''SE'' [0..<T]) (var_family ''P_solar_battery'' [0..<T]) (var_family ''P_grid_battery'' [0..<T]) (var_family ''P_battery_household'' [0..<T]) t m = Inr m'"
  shows "t < T \<and> (t = 0 \<longrightarrow> battery_params ''initial_soc'' \<noteq> None \<and> battery_params ''capacity_kwh'' \<noteq> None)
     \<and> battery_params ''charge_efficiency'' \<noteq> None
     \<and> (case battery_params ''discharge_efficiency'' of None \<Rightarrow> False | Some e \<Rightarrow> e \<noteq> 0)"
  using assms
  by (cases "t = 0")
    (auto simp: battery_dynamics_def and_then_eq_Inr split: option.splits)

lemma rur_battery_dynamics:
  assumes "t < T \<and> (t = 0 \<longrightarrow> battery_params ''initial_soc'' \<noteq> None \<and> battery_params ''capacity_kwh'' \<noteq> None)
     \<and> battery_params ''charge_efficiency'' \<noteq> None
     \<and> (case battery_params ''discharge_efficiency'' of None \<Rightarrow> False | Some e \<Rightarrow> e \<noteq> 0)"
  shows "returns_unless_refused refused
     (battery_dynamics refused battery_params (var_family ''SE'' [0..<T]) (var_family ''P_solar_battery'' [0..<T]) (var_family ''P_grid_battery'' [0..<T]) (var_family ''P_battery_household'' [0..<T]) t m)
     (m\<lparr>constrs := constrs m @ [battery_dynamics_constr battery_params t]\<rparr>)"
  using assms
  by (cases "t = 0")
    (auto simp: returns_unless_refused_def battery_dynamics_def and_then_eq_Inr and_then_eq_Inl
      battery_dynamics_constr_def split: option.splits)

lemma soc_limits_okD:
  assumes "soc_limits refused battery_params (var_family ''SE'' [0..<T]) t m = Inr m'"
  shows "t < T \<and> battery_params ''min_soc'' \<noteq> None \<and> battery_params ''capacity_kwh'' \<noteq> None
     \<and> battery_params ''max_soc'' \<noteq> None"
  using assms
  by (auto simp: soc_limits_def and_then_eq_Inr split: option.splits)

lemma rur_soc_limits:
  assumes "t < T \<and> battery_params ''min_soc'' \<noteq> None \<and> battery_params ''capacity_kwh'' \<noteq> None
     \<and> battery_params ''max_soc'' \<noteq> None"
  shows "returns_unless_refused refused
     (soc_limits refused battery_params (var_family ''SE'' [0..<T]) t m)
     (m\<lparr>constrs := constrs m @ soc_limits_constrs battery_params t\<rparr>)"
  using assms
  by (auto simp: returns_unless_refused_def soc_limits_def and_then_eq_Inr and_then_eq_Inl
      soc_limits_constrs_def split: option.splits)

lemma charge_limit_okD:
  assumes "charge_limit refused battery_params (var_family ''P_solar_battery'' [0..<T]) (var_family ''P_grid_battery'' [0..<T]) t m = Inr m'"
  shows "t < T \<and> battery_params ''max_charge_rate'' \<noteq> None"
  using assms
  by (auto simp: charge_limit_def and_then_eq_Inr split: option.splits)

lemma rur_charge_limit:
  assumes "t < T \<and> battery_params ''max_charge_rate'' \<noteq> None"
  shows "returns_unless_refused refused
     (charge_limit refused battery_params (var_family ''P_solar_battery'' [0..<T]) (var_family ''P_grid_battery'' [0..<T]) t m)
     (m\<lparr>constrs := constrs m @ [charge_limit_constr battery_params t]\<rparr>)"
  using assms
  by (auto simp: returns_unless_refused_def charge_limit_def and_then_eq_Inr and_then_eq_Inl
      charge_limit_constr_def split: option.splits)

lemma discharge_limit_okD:
  assumes "discharge_limit refused battery_params (var_family ''P_battery_household'' [0..<T]) t m = Inr m'"
  shows "t < T \<and> battery_params ''max_discharge_rate'' \<noteq> None"
  using assms
  by (auto simp: discharge_limit_def and_then_eq_Inr split: option.splits)

lemma rur_discharge_limit:
  assumes "t < T \<and> battery_params ''max_discharge_rate'' \<noteq> None"
  shows "returns_unless_refused refused
     (discharge_limit refused battery_params (var_family ''P_battery_household'' [0..<T]) t m)
     (m\<lparr>constrs := constrs m @ [discharge_limit_constr battery_params t]\<rparr>)"
  using assms
  by (auto simp: returns_unless_refused_def discharge_limit_def and_then_eq_Inr and_then_eq_Inl
      discharge_limit_constr_def split: option.splits)

lemma mode_binary_okD:
  assumes "mode_binary refused battery_params (var_family ''P_solar_battery'' [0..<T]) (var_family ''P_grid_battery'' [0..<T]) (var_family ''P_battery_household'' [0..<T]) (var_family ''BC'' [0..<T]) (var_family ''BD'' [0..<T]) t m = Inr m'"
  shows "t < T \<and> battery_params ''max_charge_rate'' \<noteq> None
     \<and> battery_params ''max_discharge_rate'' \<noteq> None"
  using assms
  by (auto simp: mode_binary_def and_then_eq_Inr split: option.splits)

lemma rur_mode_binary:
  assumes "t < T \<and> battery_params ''max_charge_rate'' \<noteq> None
     \<and> battery_params ''max_discharge_rate'' \<noteq> None"
  shows "returns_unless_refused refused
     (mode_binary refused battery_params (var_family ''P_solar_battery'' [0..<T]) (var_family ''P_grid_battery'' [0..<T]) (var_family ''P_battery_household'' [0..<T]) (var_family ''BC'' [0..<T]) (var_family ''BD'' [0..<T]) t m)
     (m\<lparr>constrs := constrs m @ mode_binary_constrs battery_params t\<rparr>)"
  using assms
  by (auto simp: returns_unless_refused_def mode_binary_def and_then_eq_Inr and_then_eq_Inl
      mode_binary_constrs_def split: option.splits)

lemma no_simultaneous_okD:
  assumes "no_simultaneous refused (var_family ''BC'' [0..<T]) (var_family ''BD'' [0..<T]) t m = Inr m'"
  shows "t < T"
  using assms
  by (auto simp: no_simultaneous_def and_then_eq_Inr split: option.splits)

lemma rur_no_simultaneous:
  assumes "t < T"
  shows "returns_unless_refused refused
     (no_simultaneous refused (var_family ''BC'' [0..<T]) (var_family ''BD'' [0..<T]) t m)
     (m\<lparr>constrs := constrs m @ [no_simultaneous_constr t]\<rparr>)"
  using assms
  by (auto simp: returns_unless_refused_def no_simultaneous_def and_then_eq_Inr and_then_eq_Inl
      no_simultaneous_constr_def split: option.splits)

lemma grid_flow_okD:
  assumes "grid_flow refused d battery_params (var_family ''P_grid_household'' [0..<T]) (var_family ''P_grid_battery'' [0..<T]) (var_family ''P_solar_grid'' [0..<T]) (var_family ''GF'' [0..<T]) t m = Inr m'"
  shows "t < T \<and> battery_params ''max_charge_rate'' \<noteq> None
     \<and> (case load_demand d of None \<Rightarrow> False | Some xs \<Rightarrow> xs \<noteq> [])
     \<and> (case solar_production d of None \<Rightarrow> False | Some xs \<Rightarrow> xs \<noteq> [])"
  using assms
  by (auto simp: grid_flow_def and_then_eq_Inr split: option.splits)

lemma rur_grid_flow:
  assumes "t < T \<and> battery_params ''max_charge_rate'' \<noteq> None
     \<and> (case load_demand d of None \<Rightarrow> False | Some xs \<Rightarrow> xs \<noteq> [])
     \<and> (case solar_production d of None \<Rightarrow> False | Some xs \<Rightarrow> xs \<noteq> [])"
  shows "returns_unless_refused refused
     (grid_flow refused d battery_params (var_family ''P_grid_household'' [0..<T]) (var_family ''P_grid_battery'' [0..<T]) (var_family ''P_solar_grid'' [0..<T]) (var_family ''GF'' [0..<T]) t m)
     (m\<lparr>constrs := constrs m @ grid_flow_constrs d battery_params t\<rparr>)"
  using assms
  by (auto simp: returns_unless_refused_def grid_flow_def and_then_eq_Inr and_then_eq_Inl
      grid_flow_constrs_def split: option.splits)

lemma objective_terms_okD:
  assumes "collect ts (objective_term refused (var_family ''P_grid_household'' [0..<T])
      (var_family ''P_grid_battery'' [0..<T]) (var_family ''P_solar_grid'' [0..<T])
      buy_rates cost_params) = Inr es"
  shows "\<forall>t\<in>set ts. t < T \<and> buy_rates t \<noteq> None \<and> cost_params ''sell_price'' \<noteq> None"
  using assms
  by (rule collect_okD [where ok = "\<lambda>t. t < T \<and> buy_rates t \<noteq> None
      \<and> cost_params ''sell_price'' \<noteq> None"]) (rule objective_term_okD)

lemma rur_objective_terms:
  assumes "\<forall>t<T. step_ok d battery_params cost_params buy_rates t"
  shows "returns_unless_refused refused
     (collect [0..<T] (objective_term refused (var_family ''P_grid_household'' [0..<T])
        (var_family ''P_grid_battery'' [0..<T]) (var_family ''P_solar_grid'' [0..<T])
        buy_rates cost_params))
     (map (objective_summand buy_rates cost_params) [0..<T])"
proof (rule rur_collect)
  fix t
  assume "t \<in> set [0..<T]"
  with assms have "t < T" and "step_ok d battery_params cost_params buy_rates t"
    by simp_all
  then show "returns_unless_refused refused
     (objective_term refused (var_family ''P_grid_household'' [0..<T])
        (var_family ''P_grid_battery'' [0..<T]) (var_family ''P_solar_grid'' [0..<T])
        buy_rates cost_params t)
     (objective_summand buy_rates cost_params t)"
    by (intro rur_objective_term) (simp_all add: step_ok_def lookups_ok_def)
qed

lemma solar_balance_loop_okD:
  assumes "for_loop ts (solar_balance refused d (var_family ''P_solar_household'' [0..<T]) (var_family ''P_solar_battery'' [0..<T]) (var_family ''P_solar_grid'' [0..<T])) m = Inr m'"
  shows "\<forall>t\<in>set ts. t < T \<and> (case solar_production d of None \<Rightarrow> False | Some xs \<Rightarrow> t < length xs)"
  using assms
  by (rule for_loop_okD [where ok = "\<lambda>t. t < T \<and> (case solar_production d of None \<Rightarrow> False | Some xs \<Rightarrow> t < length xs)"]) (rule solar_balance_okD)

lemma rur_solar_balance_loop:
  assumes "\<forall>t<T. step_ok d battery_params cost_params buy_rates t"
  shows "returns_unless_refused refused
     (for_loop [0..<T] (solar_balance refused d (var_family ''P_solar_household'' [0..<T]) (var_family ''P_solar_battery'' [0..<T]) (var_family ''P_solar_grid'' [0..<T])) m)
     (m\<lparr>constrs := constrs m @ concat (map (\<lambda>t. [solar_balance_constr d t]) [0..<T])\<rparr>)"
proof (rule rur_for_loop)
  fix t m
  assume "t \<in> set [0..<T]"
  with assms have "t < T" and "step_ok d battery_params cost_params buy_rates t"
    by simp_all
  then have "t < T \<and> (case solar_production d of None \<Rightarrow> False | Some xs \<Rightarrow> t < length xs)"
    by (auto simp: step_ok_def lookups_ok_def split: option.splits)
  then show "returns_unless_refused refused
     (solar_balance refused d (var_family ''P_solar_household'' [0..<T]) (var_family ''P_solar_battery'' [0..<T]) (var_family ''P_solar_grid'' [0..<T]) t m)
     (m\<lparr>constrs := constrs m @ [solar_balance_constr d t]\<rparr>)"
    by (rule rur_solar_balance)
qed

lemma load_balance_loop_okD:
  assumes "for_loop ts (load_balance refused d (var_family ''P_solar_household'' [0..<T]) (var_family ''P_battery_household'' [0..<T]) (var_family ''P_grid_household'' [0..<T])) m = Inr m'"
  shows "\<forall>t\<in>set ts. t < T \<and> (case load_demand d of None \<Rightarrow> False | Some xs \<Rightarrow> t < length xs)"
  using assms
  by (rule for_loop_okD [where ok = "\<lambda>t. t < T \<and> (case load_demand d of None \<Rightarrow> False | Some xs \<Rightarrow> t < length xs)"]) (rule load_balance_okD)

lemma rur_load_balance_loop:
  assumes "\<forall>t<T. step_ok d battery_params cost_params buy_rates t"
  shows "returns_unless_refused refused
     (for_loop [0..<T] (load_balance refused d (var_family ''P_solar_household'' [0..<T]) (var_family ''P_battery_household'' [0..<T]) (var_family ''P_grid_household'' [0..<T])) m)
     (m\<lparr>constrs := constrs m @ concat (map (\<lambda>t. [load_balance_constr d t]) [0..<T])\<rparr>)"
proof (rule rur_for_loop)
  fix t m
  assume "t \<in> set [0..<T]"
  with assms have "t < T" and "step_ok d battery_params cost_params buy_rates t"
    by simp_all
  then have "t < T \<and> (case load_demand d of None \<Rightarrow> False | Some xs \<Rightarrow> t < length xs)"
    by (auto simp: step_ok_def lookups_ok_def split: option.splits)
  then show "returns_unless_refused refused
     (load_balance refused d (var_family ''P_solar_household'' [0..<T]) (var_family ''P_battery_household'' [0..<T]) (var_family ''P_grid_household'' [0..<T]) t m)
     (m\<lparr>constrs := constrs m @ [load_balance_constr d t]\<rparr>)"
    by (rule rur_load_balance)
qed

lemma battery_dynamics_loop_okD:
  assumes "for_loop ts (battery_dynamics refused battery_params (var_family ''SE'' [0..<T]) (var_family ''P_solar_battery'' [0..<T]) (var_family ''P_grid_battery'' [0..<T]) (var_family ''P_battery_household'' [0..<T])) m = Inr m'"
  shows "\<forall>t\<in>set ts. t < T \<and> (t = 0 \<longrightarrow> battery_params ''initial_soc'' \<noteq> None \<and> battery_params ''capacity_kwh'' \<noteq> None)
     \<and> battery_params ''charge_efficiency'' \<noteq> None
     \<and> (case battery_params ''discharge_efficiency'' of None \<Rightarrow> False | Some e \<Rightarrow> e \<noteq> 0)"
  using assms
  by (rule for_loop_okD [where ok = "\<lambda>t. t < T \<and> (t = 0 \<longrightarrow> battery_params ''initial_soc'' \<noteq> None \<and> battery_params ''capacity_kwh'' \<noteq> None)
     \<and> battery_params ''charge_efficiency'' \<noteq> None
     \<and> (case battery_params ''discharge_efficiency'' of None \<Rightarrow> False | Some e \<Rightarrow> e \<noteq> 0)"]) (rule battery_dynamics_okD)

lemma rur_battery_dynamics_loop:
  assumes "\<forall>t<T. step_ok d battery_params cost_params buy_rates t"
  shows "returns_unless_refused refused
     (for_loop [0..<T] (battery_dynamics refused battery_params (var_family ''SE'' [0..<T]) (var_family ''P_solar_battery'' [0..<T]) (var_family ''P_grid_battery'' [0..<T]) (var_family ''P_battery_household'' [0..<T])) m)
     (m\<lparr>constrs := constrs m @ concat (map (\<lambda>t. [battery_dynamics_constr battery_params t]) [0..<T])\<rparr>)"
proof (rule rur_for_loop)
  fix t m
  assume "t \<in> set [0..<T]"
  with assms have "t < T" and "step_ok d battery_params cost_params buy_rates t"
    by simp_all
  then have "t < T \<and> (t = 0 \<longrightarrow> battery_params ''initial_soc'' \<noteq> None \<and> battery_params ''capacity_kwh'' \<noteq> None)
     \<and> battery_params ''charge_efficiency'' \<noteq> None
     \<and> (case battery_params ''discharge_efficiency'' of None \<Rightarrow> False | Some e \<Rightarrow> e \<noteq> 0)"
    by (auto simp: step_ok_def lookups_ok_def split: option.splits)
  then show "returns_unless_refused refused
     (battery_dynamics refused battery_params (var_family ''SE'' [0..<T]) (var_family ''P_solar_battery'' [0..<T]) (var_family ''P_grid_battery'' [0..<T]) (var_family ''P_battery_household'' [0..<T]) t m)
     (m\<lparr>constrs := constrs m @ [battery_dynamics_constr battery_params t]\<rparr>)"
    by (rule rur_battery_dynamics)
qed

lemma soc_limits_loop_okD:
  assumes "for_loop ts (soc_limits refused battery_params (var_family ''SE'' [0..<T])) m = Inr m'"
  shows "\<forall>t\<in>set ts. t < T \<and> battery_params ''min_soc'' \<noteq> None \<and> battery_params ''capacity_kwh'' \<noteq> None
     \<and> battery_params ''max_soc'' \<noteq> None"
  using assms
  by (rule for_loop_okD [where ok = "\<lambda>t. t < T \<and> battery_params ''min_soc'' \<noteq> None \<and> battery_params ''capacity_kwh'' \<noteq> None
     \<and> battery_params ''max_soc'' \<noteq> None"]) (rule soc_limits_okD)

lemma rur_soc_limits_loop:
  assumes "\<forall>t<T. step_ok d battery_params cost_params buy_rates t"
  shows "returns_unless_refused refused
     (for_loop [0..<T] (soc_limits refused battery_params (var_family ''SE'' [0..<T])) m)
     (m\<lparr>constrs := constrs m @ concat (map (\<lambda>t. soc_limits_constrs battery_params t) [0..<T])\<rparr>)"
proof (rule rur_for_loop)
  fix t m
  assume "t \<in> set [0..<T]"
  with assms have "t < T" and "step_ok d battery_params cost_params buy_rates t"
    by simp_all
  then have "t < T \<and> battery_params ''min_soc'' \<noteq> None \<and> battery_params ''capacity_kwh'' \<noteq> None
     \<and> battery_params ''max_soc'' \<noteq> None"
    by (auto simp: step_ok_def lookups_ok_def split: option.splits)
  then show "returns_unless_refused refused
     (soc_limits refused battery_params (var_family ''SE'' [0..<T]) t m)
     (m\<lparr>constrs := constrs m @ soc_limits_constrs battery_params t\<rparr>)"
    by (rule rur_soc_limits)
qed

lemma charge_limit_loop_okD:
  assumes "for_loop ts (charge_limit refused battery_params (var_family ''P_solar_battery'' [0..<T]) (var_family ''P_grid_battery'' [0..<T])) m = Inr m'"
  shows "\<forall>t\<in>set ts. t < T \<and> battery_params ''max_charge_rate'' \<noteq> None"
  using assms
  by (rule for_loop_okD [where ok = "\<lambda>t. t < T \<and> battery_params ''max_charge_rate'' \<noteq> None"]) (rule charge_limit_okD)

lemma rur_charge_limit_loop:
  assumes "\<forall>t<T. step_ok d battery_params cost_params buy_rates t"
  shows "returns_unless_refused refused
     (for_loop [0..<T] (charge_limit refused battery_params (var_family ''P_solar_battery'' [0..<T]) (var_family ''P_grid_battery'' [0..<T])) m)
     (m\<lparr>constrs := constrs m @ concat (map (\<lambda>t. [charge_limit_constr battery_params t]) [0..<T])\<rparr>)"
proof (rule rur_for_loop)
  fix t m
  assume "t \<in> set [0..<T]"
  with assms have "t < T" and "step_ok d battery_params cost_params buy_rates t"
    by simp_all
  then have "t < T \<and> battery_params ''max_charge_rate'' \<noteq> None"
    by (auto simp: step_ok_def lookups_ok_def split: option.splits)
  then show "returns_unless_refused refused
     (charge_limit refused battery_params (var_family ''P_solar_battery'' [0..<T]) (var_family ''P_grid_battery'' [0..<T]) t m)
     (m\<lparr>constrs := constrs m @ [charge_limit_constr battery_params t]\<rparr>)"
    by (rule rur_charge_limit)
qed

lemma discharge_limit_loop_okD:
  assumes "for_loop ts (discharge_limit refused battery_params (var_family ''P_battery_household'' [0..<T])) m = Inr m'"
  shows "\<forall>t\<in>set ts. t < T \<and> battery_params ''max_discharge_rate'' \<noteq> None"
  using assms
  by (rule for_loop_okD [where ok = "\<lambda>t. t < T \<and> battery_params ''max_discharge_rate'' \<noteq> None"]) (rule discharge_limit_okD)

lemma rur_discharge_limit_loop:
  assumes "\<forall>t<T. step_ok d battery_params cost_params buy_rates t"
  shows "returns_unless_refused refused
     (for_loop [0..<T] (discharge_limit refused battery_params (var_family ''P_battery_household'' [0..<T])) m)
     (m\<lparr>constrs := constrs m @ concat (map (\<lambda>t. [discharge_limit_constr battery_params t]) [0..<T])\<rparr>)"
proof (rule rur_for_loop)
  fix t m
  assume "t \<in> set [0..<T]"
  with assms have "t < T" and "step_ok d battery_params cost_params buy_rates t"
    by simp_all
  then have "t < T \<and> battery_params ''max_discharge_rate'' \<noteq> None"
    by (auto simp: step_ok_def lookups_ok_def split: option.splits)
  then show "returns_unless_refused refused
     (discharge_limit refused battery_params (var_family ''P_battery_household'' [0..<T]) t m)
     (m\<lparr>constrs := constrs m @ [discharge_limit_constr battery_params t]\<rparr>)"
    by (rule rur_discharge_limit)
qed

lemma mode_binary_loop_okD:
  assumes "for_loop ts (mode_binary refused battery_params (var_family ''P_solar_battery'' [0..<T]) (var_family ''P_grid_battery'' [0..<T]) (var_family ''P_battery_household'' [0..<T]) (var_family ''BC'' [0..<T]) (var_family ''BD'' [0..<T])) m = Inr m'"
  shows "\<forall>t\<in>set ts. t < T \<and> battery_params ''max_charge_rate'' \<noteq> None
     \<and> battery_params ''max_discharge_rate'' \<noteq> None"
  using assms
  by (rule for_loop_okD [where ok = "\<lambda>t. t < T \<and> battery_params ''max_charge_rate'' \<noteq> None
     \<and> battery_params ''max_discharge_rate'' \<noteq> None"]) (rule mode_binary_okD)

lemma rur_mode_binary_loop:
  assumes "\<forall>t<T. step_ok d battery_params cost_params buy_rates t"
  shows "returns_unless_refused refused
     (for_loop [0..<T] (mode_binary refused battery_params (var_family ''P_solar_battery'' [0..<T]) (var_family ''P_grid_battery'' [0..<T]) (var_family ''P_battery_household'' [0..<T]) (var_family ''BC'' [0..<T]) (var_family ''BD'' [0..<T])) m)
     (m\<lparr>constrs := constrs m @ concat (map (\<lambda>t. mode_binary_constrs battery_params t) [0..<T])\<rparr>)"
proof (rule rur_for_loop)
  fix t m
  assume "t \<in> set [0..<T]"
  with assms have "t < T" and "step_ok d battery_params cost_params buy_rates t"
    by simp_all
  then have "t < T \<and> battery_params ''max_charge_rate'' \<noteq> None
     \<and> battery_params ''max_discharge_rate'' \<noteq> None"
    by (auto simp: step_ok_def lookups_ok_def split: option.splits)
  then show "returns_unless_refused refused
     (mode_binary refused battery_params (var_family ''P_solar_battery'' [0..<T]) (var_family ''P_grid_battery'' [0..<T]) (var_family ''P_battery_household'' [0..<T]) (var_family ''BC'' [0..<T]) (var_family ''BD'' [0..<T]) t m)
     (m\<lparr>constrs := constrs m @ mode_binary_constrs battery_params t\<rparr>)"
    by (rule rur_mode_binary)
qed

lemma no_simultaneous_loop_okD:
  assumes "for_loop ts (no_simultaneous refused (var_family ''BC'' [0..<T]) (var_family ''BD'' [0..<T])) m = Inr m'"
  shows "\<forall>t\<in>set ts. t < T"
  using assms
  by (rule for_loop_okD [where ok = "\<lambda>t. t < T"]) (rule no_simultaneous_okD)

lemma rur_no_simultaneous_loop:
  assumes "\<forall>t<T. step_ok d battery_params cost_params buy_rates t"
  shows "returns_unless_refused refused
     (for_loop [0..<T] (no_simultaneous refused (var_family ''BC'' [0..<T]) (var_family ''BD'' [0..<T])) m)
     (m\<lparr>constrs := constrs m @ concat (map (\<lambda>t. [no_simultaneous_constr t]) [0..<T])\<rparr>)"
proof (rule rur_for_loop)
  fix t m
  assume "t \<in> set [0..<T]"
  with assms have "t < T" and "step_ok d battery_params cost_params buy_rates t"
    by simp_all
  then have "t < T"
    by (auto simp: step_ok_def lookups_ok_def split: option.splits)
  then show "returns_unless_refused refused
     (no_simultaneous refused (var_family ''BC'' [0..<T]) (var_family ''BD'' [0..<T]) t m)
     (m\<lparr>constrs := constrs m @ [no_simultaneous_constr t]\<rparr>)"
    by (rule rur_no_simultaneous)
qed

lemma grid_flow_loop_okD:
  assumes "for_loop ts (grid_flow refused d battery_params (var_family ''P_grid_household'' [0..<T]) (var_family ''P_grid_battery'' [0..<T]) (var_family ''P_solar_grid'' [0..<T]) (var_family ''GF'' [0..<T])) m = Inr m'"
  shows "\<forall>t\<in>set ts. t < T \<and> battery_params ''max_charge_rate'' \<noteq> None
     \<and> (case load_demand d of None \<Rightarrow> False | Some xs \<Rightarrow> xs \<noteq> [])
     \<and> (case solar_production d of None \<Rightarrow> False | Some xs \<Rightarrow> xs \<noteq> [])"
  using assms
  by (rule for_loop_okD [where ok = "\<lambda>t. t < T \<and> battery_params ''max_charge_rate'' \<noteq> None
     \<and> (case load_demand d of None \<Rightarrow> False | Some xs \<Rightarrow> xs \<noteq> [])
     \<and> (case solar_production d of None \<Rightarrow> False | Some xs \<Rightarrow> xs \<noteq> [])"]) (rule grid_flow_okD)

lemma rur_grid_flow_loop:
  assumes "\<forall>t<T. step_ok d battery_params cost_params buy_rates t"
  shows "returns_unless_refused refused
     (for_loop [0..<T] (grid_flow refused d battery_params (var_family ''P_grid_household'' [0..<T]) (var_family ''P_grid_battery'' [0..<T]) (var_family ''P_solar_grid'' [0..<T]) (var_family ''GF'' [0..<T])) m)
     (m\<lparr>constrs := constrs m @ concat (map (\<lambda>t. grid_flow_constrs d battery_params t) [0..<T])\<rparr>)"
proof (rule rur_for_loop)
  fix t m
  assume "t \<in> set [0..<T]"
  with assms have "t < T" and "step_ok d battery_params cost_params buy_rates t"
    by simp_all
  then have "t < T \<and> battery_params ''max_charge_rate'' \<noteq> None
     \<and> (case load_demand d of None \<Rightarrow> False | Some xs \<Rightarrow> xs \<noteq> [])
     \<and> (case solar_production d of None \<Rightarrow> False | Some xs \<Rightarrow> xs \<noteq> [])"
    by (auto simp: step_ok_def lookups_ok_def split: option.splits)
  then show "returns_unless_refused refused
     (grid_flow refused d battery_params (var_family ''P_grid_household'' [0..<T]) (var_family ''P_grid_battery'' [0..<T]) (var_family ''P_solar_grid'' [0..<T]) (var_family ''GF'' [0..<T]) t m)
     (m\<lparr>constrs := constrs m @ grid_flow_constrs d battery_params t\<rparr>)"
    by (rule rur_grid_flow)
qed

lemmas loop_okD = objective_terms_okD solar_balance_loop_okD load_balance_loop_okD battery_dynamics_loop_okD soc_limits_loop_okD charge_limit_loop_okD discharge_limit_loop_okD mode_binary_loop_okD no_simultaneous_loop_okD grid_flow_loop_okD

lemma concat_singletons: "concat (map (\<lambda>t. [f t]) ts) = map f ts"
  by (induction ts) simp_all

lemma ball_uptD: "\<forall>t\<in>set [0..<T]. P t \<Longrightarrow> t < T \<Longrightarrow> P t"
  by simp

section \<open>What the builder returns\<close>

lemma and_then_gp_callE:
  assumes "and_then (gp_call refused c v) f = Inr y"
  obtains "\<not> refused c" and "f v = Inr y"
  using assms by (auto simp: and_then_eq_Inr)

lemma create_milp_model_InrD:
  assumes "snd (create_milp_model refused G env d battery_params cost_params buy_rates) = Inr r"
  shows "\<exists>ts. time d = Some ts
        \<and> (\<forall>t<length ts. step_ok d battery_params cost_params buy_rates t)"
  using assms unfolding create_milp_model_def Let_def addVars_def snd_conv
  apply -
  apply (erule and_then_gp_callE)
  apply (erule and_thenE)
  apply (erule and_then_gp_callE, simp only: prod.case)
  apply (erule and_then_gp_callE, simp only: prod.case)
  apply (erule and_then_gp_callE, simp only: prod.case)
  apply (erule and_then_gp_callE, simp only: prod.case)
  apply (erule and_then_gp_callE, simp only: prod.case)
  apply (erule and_then_gp_callE, simp only: prod.case)
  apply (erule and_then_gp_callE, simp only: prod.case)
  apply (erule and_then_gp_callE, simp only: prod.case)
  apply (erule and_then_gp_callE, simp only: prod.case)
  apply (erule and_then_gp_callE, simp only: prod.case)
  apply (erule and_thenE)
  apply (erule and_then_gp_callE)
  apply (erule and_then_gp_callE)
  apply (elim and_thenE)
  apply (drule loop_okD(1))
  apply (drule loop_okD(2))
  apply (drule loop_okD(3))
  apply (drule loop_okD(4))
  apply (drule loop_okD(5))
  apply (drule loop_okD(6))
  apply (drule loop_okD(7))
  apply (drule loop_okD(8))
  apply (drule loop_okD(9))
  apply (drule loop_okD(10))
  apply (thin_tac "Inr _ = Inr _")
  apply (frule data_time_eq_Inr [THEN iffD1])
  apply (rule exI, erule conjI)
  apply (intro allI impI)
  apply (drule (1) ball_uptD)+
  apply (simp add: step_ok_def lookups_ok_def split: option.splits)
  done

lemma create_milp_model_rur:
  assumes "time d = Some ts"
    and ok: "\<forall>t<length ts. step_ok d battery_params cost_params buy_rates t"
  shows "returns_unless_refused refused
     (snd (create_milp_model refused G env d battery_params cost_params buy_rates))
     (built_model d battery_params cost_params buy_rates (length ts), built_vars (length ts))"
  unfolding create_milp_model_def snd_conv Let_def addVars_def Model_def
  apply (rule rur_bind, rule rur_gp_call)
  apply (simp only: assms(1) [THEN data_time_eq_Inr [THEN iffD2]] and_then_Inr)
  apply (rule rur_bind, rule rur_gp_call, simp)
  apply (rule rur_bind, rule rur_gp_call, simp)
  apply (rule rur_bind, rule rur_gp_call, simp)
  apply (rule rur_bind, rule rur_gp_call, simp)
  apply (rule rur_bind, rule rur_gp_call, simp)
  apply (rule rur_bind, rule rur_gp_call, simp)
  apply (rule rur_bind, rule rur_gp_call, simp)
  apply (rule rur_bind, rule rur_gp_call, simp)
  apply (rule rur_bind, rule rur_gp_call, simp)
  apply (rule rur_bind, rule rur_gp_call, simp)
  apply (rule rur_bind, rule rur_objective_terms [OF ok])
  apply (rule rur_bind, rule rur_gp_call)
  apply (rule rur_bind, rule rur_gp_call)
  apply (simp add: setObjective_def)
  apply (rule rur_bind, rule rur_solar_balance_loop [OF ok], simp)
  apply (rule rur_bind, rule rur_load_balance_loop [OF ok], simp)
  apply (rule rur_bind, rule rur_battery_dynamics_loop [OF ok], simp)
  apply (rule rur_bind, rule rur_soc_limits_loop [OF ok], simp)
  apply (rule rur_bind, rule rur_charge_limit_loop [OF ok], simp)
  apply (rule rur_bind, rule rur_discharge_limit_loop [OF ok], simp)
  apply (rule rur_bind, rule rur_mode_binary_loop [OF ok], simp)
  apply (rule rur_bind, rule rur_no_simultaneous_loop [OF ok], simp)
  apply (rule rur_bind, rule rur_grid_flow_loop [OF ok], simp)
  apply (simp add: rur_Inr built_model_def built_vars_def declared_def concat_singletons)
  done

lemma create_milp_model_built:
  assumes "time d = Some ts"
    and "\<forall>t<length ts. step_ok d battery_params cost_params buy_rates t"
    and "\<forall>c. \<not> refused c"
  shows "snd (create_milp_model refused G env d battery_params cost_params buy_rates) =
     Inr (built_model d battery_params cost_params buy_rates (length ts),
          built_vars (length ts))"
  using create_milp_model_rur [OF assms(1,2)] assms(3) by (rule rur_no_refusal)

lemma create_milp_model_InrD2:
  assumes "snd (create_milp_model refused G env d battery_params cost_params buy_rates)
      = Inr (m, vars)"
    and "time d = Some ts"
  shows "m = built_model d battery_params cost_params buy_rates (length ts)"
    and "vars = built_vars (length ts)"
    and "\<And>t. t < length ts \<Longrightarrow> step_ok d battery_params cost_params buy_rates t"
proof -
  from create_milp_model_InrD [OF assms(1)] assms(2)
  have ok: "\<forall>t<length ts. step_ok d battery_params cost_params buy_rates t"
    by auto
  from create_milp_model_rur [OF assms(2) ok, of refused G env] assms(1)
  show "m = built_model d battery_params cost_params buy_rates (length ts)"
    and "vars = built_vars (length ts)"
    by (simp_all add: returns_unless_refused_def)
  show "\<And>t. t < length ts \<Longrightarrow> step_ok d battery_params cost_params buy_rates t"
    using ok by simp
qed

section \<open>The constraints and variables of a built model\<close>

lemma var_at_built_vars:
  assumes "t < T"
    and "n \<in> set [''P_solar_household'', ''P_solar_battery'', ''P_solar_grid'',
      ''P_battery_household'', ''P_grid_battery'', ''P_grid_household'', ''SE'', ''BC'', ''BD'',
      ''GF'']"
  shows "var_at (built_vars T) n t = Inr (n, t)"
  using assms by (auto simp: var_at_def built_vars_def dict_get_def var_family_def)

lemma constrs_built_model:
  assumes "t < T"
  shows "solar_balance_constr d t \<in> set (constrs (built_model d bp cp br T))"
    and "load_balance_constr d t \<in> set (constrs (built_model d bp cp br T))"
    and "battery_dynamics_constr bp t \<in> set (constrs (built_model d bp cp br T))"
    and "set (soc_limits_constrs bp t) \<subseteq> set (constrs (built_model d bp cp br T))"
    and "charge_limit_constr bp t \<in> set (constrs (built_model d bp cp br T))"
    and "discharge_limit_constr bp t \<in> set (constrs (built_model d bp cp br T))"
    and "set (mode_binary_constrs bp t) \<subseteq> set (constrs (built_model d bp cp br T))"
    and "no_simultaneous_constr t \<in> set (constrs (built_model d bp cp br T))"
    and "set (grid_flow_constrs d bp t) \<subseteq> set (constrs (built_model d bp cp br T))"
  using assms by (auto simp: built_model_def)

lemma mvars_built_model:
  assumes "t < T"
    and "(n, ty) \<in> set [(''P_solar_household'', CONTINUOUS), (''P_solar_battery'', CONTINUOUS),
      (''P_solar_grid'', CONTINUOUS), (''P_battery_household'', CONTINUOUS),
      (''P_grid_battery'', CONTINUOUS), (''P_grid_household'', CONTINUOUS), (''SE'', CONTINUOUS),
      (''BC'', BINARY), (''BD'', BINARY), (''GF'', BINARY)]"
  shows "\<lparr>vname = (n, t), lb = 0, vtype = ty\<rparr> \<in> set (mvars (built_model d bp cp br T))"
  using assms by (auto simp: built_model_def declared_def)

lemma two_steps_ok:
  "t < 2 \<Longrightarrow> step_ok two_steps main_battery_params main_cost_params two_rates t"
  by (cases t) (simp_all add: step_ok_def lookups_ok_def two_steps_def main_battery_params_def
      main_cost_params_def two_rates_def)

lemma two_steps_built:
  "snd (create_milp_model no_refusal G env two_steps main_battery_params main_cost_params
       two_rates) =
     Inr (built_model two_steps main_battery_params main_cost_params two_rates 2, built_vars 2)"
proof -
  let ?ts = "[\<lparr>hour = 3, minute = 0\<rparr>, \<lparr>hour = 3, minute = 5\<rparr>]"
  have "time two_steps = Some ?ts"
    by (simp add: two_steps_def)
  moreover have "\<forall>t<length ?ts. step_ok two_steps main_battery_params main_cost_params two_rates t"
    by (simp add: two_steps_ok)
  moreover have "\<forall>c. \<not> no_refusal c"
    by (simp add: no_refusal_def)
  ultimately have "snd (create_milp_model no_refusal G env two_steps main_battery_params
      main_cost_params two_rates) = Inr (built_model two_steps main_battery_params
        main_cost_params two_rates (length ?ts), built_vars (length ?ts))"
    by (rule create_milp_model_built)
  then show ?thesis
    by (simp add: numeral_2_eq_2)
qed

text \<open>
  C1. Whenever the builder returns a model for data of \<open>T\<close> steps, the model has, for
  every step \<open>t < T\<close>, the battery-dynamics constraint \<open>battery_dynamics_t\<close> over the
  variables that the returned dictionary gives for \<open>SE\<close>, \<open>P_solar_battery\<close>,
  \<open>P_grid_battery\<close> and \<open>P_battery_household\<close>. An assignment satisfies the constraint
  of step 0 exactly when \<open>SE[0] = initial_soc * capacity_kwh + (P_solar_battery[0] +
  P_grid_battery[0]) * c * charge_efficiency - P_battery_household[0] * c /
  discharge_efficiency\<close>, and the constraint of a step \<open>t > 0\<close> exactly when \<open>SE[t] =
  SE[t-1] + (P_solar_battery[t] + P_grid_battery[t]) * c * charge_efficiency -
  P_battery_household[t] * c / discharge_efficiency\<close>, with \<open>c = (5/60)/1000\<close>.
\<close>

theorem battery_dynamics_constraints:
  assumes "snd (create_milp_model refused G env d battery_params cost_params buy_rates) = Inr (m, vars)"
    and "time d = Some ts"
    and "t < length ts"
  shows "var_at vars ''SE'' t = Inr (''SE'', t)
     \<and> var_at vars ''P_solar_battery'' t = Inr (''P_solar_battery'', t)
     \<and> var_at vars ''P_grid_battery'' t = Inr (''P_grid_battery'', t)
     \<and> var_at vars ''P_battery_household'' t = Inr (''P_battery_household'', t)
     \<and> (\<exists>charge_efficiency discharge_efficiency.
          battery_params ''charge_efficiency'' = Some charge_efficiency
        \<and> battery_params ''discharge_efficiency'' = Some discharge_efficiency
        \<and> discharge_efficiency \<noteq> 0
        \<and> (t = 0 \<longrightarrow> (\<exists>initial_soc capacity_kwh.
              battery_params ''initial_soc'' = Some initial_soc
            \<and> battery_params ''capacity_kwh'' = Some capacity_kwh
            \<and> (\<exists>c\<in>set (constrs m). cname c = (''battery_dynamics_'', 0) \<and> (\<forall>x. holds x c =
                 (x (''SE'', 0) = initial_soc * capacity_kwh
                    + (x (''P_solar_battery'', 0) + x (''P_grid_battery'', 0)) * ((5 / 60) / 1000)
                      * charge_efficiency
                    - x (''P_battery_household'', 0) * ((5 / 60) / 1000)
                      / discharge_efficiency)))))
        \<and> (0 < t \<longrightarrow>
             (\<exists>c\<in>set (constrs m). cname c = (''battery_dynamics_'', t) \<and> (\<forall>x. holds x c =
                 (x (''SE'', t) = x (''SE'', t - 1)
                    + (x (''P_solar_battery'', t) + x (''P_grid_battery'', t)) * ((5 / 60) / 1000)
                      * charge_efficiency
                    - x (''P_battery_household'', t) * ((5 / 60) / 1000)
                      / discharge_efficiency)))))"
proof -
  let ?T = "length ts"
  note b = create_milp_model_InrD2 [OF assms(1,2)]
  have ok: "step_ok d battery_params cost_params buy_rates t"
    using b(3) assms(3) .
  have c: "battery_dynamics_constr battery_params t \<in> set (constrs m)"
    unfolding b(1) using assms(3) by (rule constrs_built_model)
  have v: "var_at vars ''SE'' t = Inr (''SE'', t)"
      "var_at vars ''P_solar_battery'' t = Inr (''P_solar_battery'', t)"
      "var_at vars ''P_grid_battery'' t = Inr (''P_grid_battery'', t)"
      "var_at vars ''P_battery_household'' t = Inr (''P_battery_household'', t)"
    unfolding b(2) using assms(3) by (simp_all add: var_at_built_vars)
  from ok obtain ce de where p: "battery_params ''charge_efficiency'' = Some ce"
      "battery_params ''discharge_efficiency'' = Some de" "de \<noteq> 0"
    by (auto simp: step_ok_def lookups_ok_def split: option.splits)
  have first: "\<exists>initial_soc capacity_kwh.
              battery_params ''initial_soc'' = Some initial_soc
            \<and> battery_params ''capacity_kwh'' = Some capacity_kwh
            \<and> (\<exists>c\<in>set (constrs m). cname c = (''battery_dynamics_'', 0) \<and> (\<forall>x. holds x c =
                 (x (''SE'', 0) = initial_soc * capacity_kwh
                    + (x (''P_solar_battery'', 0) + x (''P_grid_battery'', 0)) * ((5 / 60) / 1000)
                      * ce
                    - x (''P_battery_household'', 0) * ((5 / 60) / 1000) / de)))" if "t = 0"
  proof -
    from ok that obtain i0 cap where q: "battery_params ''initial_soc'' = Some i0"
        "battery_params ''capacity_kwh'' = Some cap"
      by (auto simp: step_ok_def lookups_ok_def)
    have "\<forall>x. holds x (battery_dynamics_constr battery_params 0) =
        (x (''SE'', 0) = i0 * cap
           + (x (''P_solar_battery'', 0) + x (''P_grid_battery'', 0)) * ((5 / 60) / 1000) * ce
           - x (''P_battery_household'', 0) * ((5 / 60) / 1000) / de)"
      by (simp add: holds_def battery_dynamics_constr_def conversion_factor_def p q)
    moreover have "cname (battery_dynamics_constr battery_params 0) = (''battery_dynamics_'', 0)"
      by (simp add: battery_dynamics_constr_def)
    ultimately show ?thesis
      using c that q by blast
  qed
  have later: "\<exists>c\<in>set (constrs m). cname c = (''battery_dynamics_'', t) \<and> (\<forall>x. holds x c =
                 (x (''SE'', t) = x (''SE'', t - 1)
                    + (x (''P_solar_battery'', t) + x (''P_grid_battery'', t)) * ((5 / 60) / 1000)
                      * ce
                    - x (''P_battery_household'', t) * ((5 / 60) / 1000) / de))" if "0 < t"
  proof -
    have "\<forall>x. holds x (battery_dynamics_constr battery_params t) =
        (x (''SE'', t) = x (''SE'', t - 1)
           + (x (''P_solar_battery'', t) + x (''P_grid_battery'', t)) * ((5 / 60) / 1000) * ce
           - x (''P_battery_household'', t) * ((5 / 60) / 1000) / de)"
      using that by (simp add: holds_def battery_dynamics_constr_def conversion_factor_def p)
    moreover have "cname (battery_dynamics_constr battery_params t) = (''battery_dynamics_'', t)"
      by (simp add: battery_dynamics_constr_def)
    ultimately show ?thesis
      using c by blast
  qed
  show ?thesis
    using v p first later by blast
qed

theorem battery_dynamics_constraints_witness:
  "\<exists>m vars.
     snd (create_milp_model no_refusal None Map.empty two_steps main_battery_params main_cost_params two_rates)
       = Inr (m, vars)
     \<and> (\<exists>c\<in>set (constrs m). cname c = (''battery_dynamics_'', 0) \<and> (\<forall>x. holds x c =
           (x (''SE'', 0) = 0.22 * 4.8
              + (x (''P_solar_battery'', 0) + x (''P_grid_battery'', 0)) * ((5 / 60) / 1000) * 0.95
              - x (''P_battery_household'', 0) * ((5 / 60) / 1000) / 0.95)))
     \<and> (\<exists>c\<in>set (constrs m). cname c = (''battery_dynamics_'', 1) \<and> (\<forall>x. holds x c =
           (x (''SE'', 1) = x (''SE'', 0)
              + (x (''P_solar_battery'', 1) + x (''P_grid_battery'', 1)) * ((5 / 60) / 1000) * 0.95
              - x (''P_battery_household'', 1) * ((5 / 60) / 1000) / 0.95)))"
proof -
  let ?m = "built_model two_steps main_battery_params main_cost_params two_rates 2"
  let ?ts = "[\<lparr>hour = 3, minute = 0\<rparr>, \<lparr>hour = 3, minute = 5\<rparr>]"
  note run = two_steps_built [of None Map.empty]
  have ts: "time two_steps = Some ?ts"
    by (simp add: two_steps_def)
  have lt: "0 < length ?ts" "1 < length ?ts"
    by simp_all
  from battery_dynamics_constraints [OF run ts lt(1)]
  obtain ce de i0 cap c where h: "main_battery_params ''charge_efficiency'' = Some ce"
      "main_battery_params ''discharge_efficiency'' = Some de"
      "main_battery_params ''initial_soc'' = Some i0"
      "main_battery_params ''capacity_kwh'' = Some cap"
      "c \<in> set (constrs ?m)" "cname c = (''battery_dynamics_'', 0)"
      "\<And>x. holds x c =
           (x (''SE'', 0) = i0 * cap
              + (x (''P_solar_battery'', 0) + x (''P_grid_battery'', 0)) * ((5 / 60) / 1000) * ce
              - x (''P_battery_household'', 0) * ((5 / 60) / 1000) / de)"
    by blast
  have v: "ce = 0.95" "de = 0.95" "i0 = 0.22" "cap = 4.8"
    using h(1-4) by (simp_all add: main_battery_params_def)
  have "\<forall>x. holds x c =
           (x (''SE'', 0) = 0.22 * 4.8
              + (x (''P_solar_battery'', 0) + x (''P_grid_battery'', 0)) * ((5 / 60) / 1000) * 0.95
              - x (''P_battery_household'', 0) * ((5 / 60) / 1000) / 0.95)"
    by (simp only: h(7) v simp_thms)
  with h(5,6) have first: "\<exists>c\<in>set (constrs ?m). cname c = (''battery_dynamics_'', 0)
      \<and> (\<forall>x. holds x c =
           (x (''SE'', 0) = 0.22 * 4.8
              + (x (''P_solar_battery'', 0) + x (''P_grid_battery'', 0)) * ((5 / 60) / 1000) * 0.95
              - x (''P_battery_household'', 0) * ((5 / 60) / 1000) / 0.95))"
    by blast
  from battery_dynamics_constraints [OF run ts lt(2)] zero_less_one [where 'a = nat]
  obtain ce' de' c' where h': "main_battery_params ''charge_efficiency'' = Some ce'"
      "main_battery_params ''discharge_efficiency'' = Some de'"
      "c' \<in> set (constrs ?m)" "cname c' = (''battery_dynamics_'', 1)"
      "\<And>x. holds x c' =
           (x (''SE'', 1) = x (''SE'', 1 - 1)
              + (x (''P_solar_battery'', 1) + x (''P_grid_battery'', 1)) * ((5 / 60) / 1000) * ce'
              - x (''P_battery_household'', 1) * ((5 / 60) / 1000) / de')"
    by blast
  have v': "ce' = 0.95" "de' = 0.95"
    using h'(1,2) by (simp_all add: main_battery_params_def)
  have "\<forall>x. holds x c' =
           (x (''SE'', 1) = x (''SE'', 0)
              + (x (''P_solar_battery'', 1) + x (''P_grid_battery'', 1)) * ((5 / 60) / 1000) * 0.95
              - x (''P_battery_household'', 1) * ((5 / 60) / 1000) / 0.95)"
    by (simp only: h'(5) v' diff_self_eq_0 simp_thms)
  with h'(3,4) have later: "\<exists>c\<in>set (constrs ?m). cname c = (''battery_dynamics_'', 1)
      \<and> (\<forall>x. holds x c =
           (x (''SE'', 1) = x (''SE'', 0)
              + (x (''P_solar_battery'', 1) + x (''P_grid_battery'', 1)) * ((5 / 60) / 1000) * 0.95
              - x (''P_battery_household'', 1) * ((5 / 60) / 1000) / 0.95))"
    by blast
  from run first later show ?thesis
    by blast
qed

text \<open>
  C2. Whenever the builder returns a model for data of \<open>T\<close> steps, the objective of the
  model is minimised, and its value under any assignment is the sum over the steps
  \<open>t < T\<close> of \<open>(P_grid_household[t] + P_grid_battery[t]) * c * buy_rates[t] -
  P_solar_grid[t] * c * sell_price\<close>, with the one factor \<open>c = (5/60)/1000\<close> on every
  term; the rate of every step and the sell price are present.
\<close>

theorem objective_is_total_cost:
  assumes "snd (create_milp_model refused G env d battery_params cost_params buy_rates) = Inr (m, vars)"
    and "time d = Some ts"
  shows "objective_sense m = MINIMIZE
     \<and> (\<forall>x. eval x (objective m) =
          (\<Sum>t\<leftarrow>[0..<length ts].
             (x (''P_grid_household'', t) + x (''P_grid_battery'', t)) * ((5 / 60) / 1000)
               * the (buy_rates t)
             - x (''P_solar_grid'', t) * ((5 / 60) / 1000) * the (cost_params ''sell_price'')))
     \<and> (\<forall>t<length ts. buy_rates t \<noteq> None \<and> cost_params ''sell_price'' \<noteq> None
          \<and> var_at vars ''P_grid_household'' t = Inr (''P_grid_household'', t)
          \<and> var_at vars ''P_grid_battery'' t = Inr (''P_grid_battery'', t)
          \<and> var_at vars ''P_solar_grid'' t = Inr (''P_solar_grid'', t))"
proof -
  note b = create_milp_model_InrD2 [OF assms]
  have "objective_sense m = MINIMIZE"
    unfolding b(1) by (simp add: built_model_def)
  moreover have "eval x (objective m) =
          (\<Sum>t\<leftarrow>[0..<length ts].
             (x (''P_grid_household'', t) + x (''P_grid_battery'', t)) * ((5 / 60) / 1000)
               * the (buy_rates t)
             - x (''P_solar_grid'', t) * ((5 / 60) / 1000) * the (cost_params ''sell_price''))"
    for x
    unfolding b(1)
    by (simp add: built_model_def objective_summand_def conversion_factor_def o_def)
  moreover have "buy_rates t \<noteq> None \<and> cost_params ''sell_price'' \<noteq> None
          \<and> var_at vars ''P_grid_household'' t = Inr (''P_grid_household'', t)
          \<and> var_at vars ''P_grid_battery'' t = Inr (''P_grid_battery'', t)
          \<and> var_at vars ''P_solar_grid'' t = Inr (''P_solar_grid'', t)" if "t < length ts" for t
    using b(3) [OF that] that unfolding b(2)
    by (simp add: step_ok_def lookups_ok_def var_at_built_vars)
  ultimately show ?thesis
    by blast
qed

theorem objective_is_total_cost_witness:
  "\<exists>m vars.
     snd (create_milp_model no_refusal None Map.empty two_steps main_battery_params main_cost_params two_rates)
       = Inr (m, vars)
     \<and> objective_sense m = MINIMIZE
     \<and> (\<forall>x. eval x (objective m) =
          ((x (''P_grid_household'', 0) + x (''P_grid_battery'', 0)) * ((5 / 60) / 1000) * 0.1052
             - x (''P_solar_grid'', 0) * ((5 / 60) / 1000) * 0.195)
          + ((x (''P_grid_household'', 1) + x (''P_grid_battery'', 1)) * ((5 / 60) / 1000) * 0.1052
             - x (''P_solar_grid'', 1) * ((5 / 60) / 1000) * 0.195))"
proof -
  let ?m = "built_model two_steps main_battery_params main_cost_params two_rates 2"
  let ?ts = "[\<lparr>hour = 3, minute = 0\<rparr>, \<lparr>hour = 3, minute = 5\<rparr>]"
  note run = two_steps_built [of None Map.empty]
  have ts: "time two_steps = Some ?ts"
    by (simp add: two_steps_def)
  have upt: "[0..<length ?ts] = [0, 1]"
    by (simp add: upt_rec)
  have v: "the (two_rates 0) = 0.1052" "the (two_rates 1) = 0.1052"
      "the (main_cost_params ''sell_price'') = 0.195"
    by (simp_all add: two_rates_def main_cost_params_def)
  note th = objective_is_total_cost [OF run ts]
  have "objective_sense ?m = MINIMIZE"
    using th by blast
  moreover have "\<forall>x. eval x (objective ?m) =
          ((x (''P_grid_household'', 0) + x (''P_grid_battery'', 0)) * ((5 / 60) / 1000) * 0.1052
             - x (''P_solar_grid'', 0) * ((5 / 60) / 1000) * 0.195)
          + ((x (''P_grid_household'', 1) + x (''P_grid_battery'', 1)) * ((5 / 60) / 1000) * 0.1052
             - x (''P_solar_grid'', 1) * ((5 / 60) / 1000) * 0.195)"
    using th by (simp only: upt list.map sum_list.Cons sum_list.Nil v add_0_right simp_thms)
  ultimately show ?thesis
    using run by blast
qed

text \<open>
  C3. Whenever the builder returns a model for data of \<open>T\<close> steps, the model has, for
  every step \<open>t < T\<close>, the two constraints \<open>grid_flow_from_t\<close> and \<open>grid_flow_to_t\<close>,
  which an assignment satisfies exactly when \<open>P_grid_household[t] + P_grid_battery[t]
  \<le> GF[t] * (max_charge_rate + max(load_demand))\<close> and \<open>P_solar_grid[t] \<le> (1 - GF[t]) *
  max(solar_production)\<close>. The two maxima are those of the whole input series of the
  call, which are not empty.
\<close>

theorem grid_flow_constraints:
  assumes "snd (create_milp_model refused G env d battery_params cost_params buy_rates) = Inr (m, vars)"
    and "time d = Some ts"
    and "t < length ts"
  shows "var_at vars ''P_grid_household'' t = Inr (''P_grid_household'', t)
     \<and> var_at vars ''P_grid_battery'' t = Inr (''P_grid_battery'', t)
     \<and> var_at vars ''P_solar_grid'' t = Inr (''P_solar_grid'', t)
     \<and> var_at vars ''GF'' t = Inr (''GF'', t)
     \<and> (\<exists>max_charge_rate demand produced.
          battery_params ''max_charge_rate'' = Some max_charge_rate
        \<and> load_demand d = Some demand \<and> demand \<noteq> []
        \<and> solar_production d = Some produced \<and> produced \<noteq> []
        \<and> (\<exists>c\<in>set (constrs m). cname c = (''grid_flow_from_'', t) \<and> (\<forall>x. holds x c =
             (x (''P_grid_household'', t) + x (''P_grid_battery'', t)
                \<le> x (''GF'', t) * (max_charge_rate + Max (set demand)))))
        \<and> (\<exists>c\<in>set (constrs m). cname c = (''grid_flow_to_'', t) \<and> (\<forall>x. holds x c =
             (x (''P_solar_grid'', t) \<le> (1 - x (''GF'', t)) * Max (set produced)))))"
proof -
  note b = create_milp_model_InrD2 [OF assms(1,2)]
  have ok: "step_ok d battery_params cost_params buy_rates t"
    using b(3) assms(3) .
  have c: "set (grid_flow_constrs d battery_params t) \<subseteq> set (constrs m)"
    unfolding b(1) using assms(3) by (rule constrs_built_model)
  have v: "var_at vars ''P_grid_household'' t = Inr (''P_grid_household'', t)"
      "var_at vars ''P_grid_battery'' t = Inr (''P_grid_battery'', t)"
      "var_at vars ''P_solar_grid'' t = Inr (''P_solar_grid'', t)"
      "var_at vars ''GF'' t = Inr (''GF'', t)"
    unfolding b(2) using assms(3) by (simp_all add: var_at_built_vars)
  from ok obtain mcr demand produced where p: "battery_params ''max_charge_rate'' = Some mcr"
      "load_demand d = Some demand" "t < length demand"
      "solar_production d = Some produced" "t < length produced"
    by (auto simp: step_ok_def lookups_ok_def split: option.splits)
  have ne: "demand \<noteq> []" "produced \<noteq> []"
    using p(3,5) by auto
  let ?c1 = "grid_flow_constrs d battery_params t ! 0"
  let ?c2 = "grid_flow_constrs d battery_params t ! 1"
  have in1: "?c1 \<in> set (constrs m)" and in2: "?c2 \<in> set (constrs m)"
    using c by (simp_all add: grid_flow_constrs_def)
  have n1: "cname ?c1 = (''grid_flow_from_'', t)" and n2: "cname ?c2 = (''grid_flow_to_'', t)"
    by (simp_all add: grid_flow_constrs_def)
  have h1: "\<forall>x. holds x ?c1 =
             (x (''P_grid_household'', t) + x (''P_grid_battery'', t)
                \<le> x (''GF'', t) * (mcr + Max (set demand)))"
    by (simp add: grid_flow_constrs_def holds_def p)
  have h2: "\<forall>x. holds x ?c2 =
             (x (''P_solar_grid'', t) \<le> (1 - x (''GF'', t)) * Max (set produced))"
    by (simp add: grid_flow_constrs_def holds_def p)
  show ?thesis
    using v p(1,2,4) ne in1 n1 h1 in2 n2 h2 by blast
qed

theorem grid_flow_constraints_witness:
  "\<exists>m vars.
     snd (create_milp_model no_refusal None Map.empty two_steps main_battery_params main_cost_params two_rates)
       = Inr (m, vars)
     \<and> (\<exists>c\<in>set (constrs m). cname c = (''grid_flow_from_'', 1) \<and> (\<forall>x. holds x c =
           (x (''P_grid_household'', 1) + x (''P_grid_battery'', 1)
              \<le> x (''GF'', 1) * (2780 + 400))))
     \<and> (\<exists>c\<in>set (constrs m). cname c = (''grid_flow_to_'', 1) \<and> (\<forall>x. holds x c =
           (x (''P_solar_grid'', 1) \<le> (1 - x (''GF'', 1)) * 1500)))"
proof -
  let ?m = "built_model two_steps main_battery_params main_cost_params two_rates 2"
  let ?ts = "[\<lparr>hour = 3, minute = 0\<rparr>, \<lparr>hour = 3, minute = 5\<rparr>]"
  note run = two_steps_built [of None Map.empty]
  have ts: "time two_steps = Some ?ts"
    by (simp add: two_steps_def)
  have lt: "1 < length ?ts"
    by simp
  from grid_flow_constraints [OF run ts lt]
  obtain mcr demand produced c1 c2 where h:
      "main_battery_params ''max_charge_rate'' = Some mcr"
      "load_demand two_steps = Some demand" "solar_production two_steps = Some produced"
      "c1 \<in> set (constrs ?m)" "cname c1 = (''grid_flow_from_'', 1)"
      "\<And>x. holds x c1 =
           (x (''P_grid_household'', 1) + x (''P_grid_battery'', 1)
              \<le> x (''GF'', 1) * (mcr + Max (set demand)))"
      "c2 \<in> set (constrs ?m)" "cname c2 = (''grid_flow_to_'', 1)"
      "\<And>x. holds x c2 = (x (''P_solar_grid'', 1) \<le> (1 - x (''GF'', 1)) * Max (set produced))"
    by blast
  have v: "mcr = 2780" "Max (set demand) = 400" "Max (set produced) = 1500"
    using h(1-3) by (auto simp: main_battery_params_def two_steps_def)
  have "\<forall>x. holds x c1 =
           (x (''P_grid_household'', 1) + x (''P_grid_battery'', 1) \<le> x (''GF'', 1) * (2780 + 400))"
    by (simp only: h(6) v simp_thms)
  moreover have "\<forall>x. holds x c2 = (x (''P_solar_grid'', 1) \<le> (1 - x (''GF'', 1)) * 1500)"
    by (simp only: h(9) v simp_thms)
  ultimately show ?thesis
    using run h(4,5,7,8) by blast
qed

lemma feasibleD:
  assumes "feasible m x"
  shows "c \<in> set (constrs m) \<Longrightarrow> holds x c"
    and "v \<in> set (mvars m) \<Longrightarrow> within_bounds x v"
  using assms by (simp_all add: feasible_def list_all_iff)

lemma exclusive_modes:
  fixes bc bd charge discharge :: real
  assumes "bc = 0 \<or> bc = 1" and "bd = 0 \<or> bd = 1" and "bc + bd \<le> 1"
    and "charge \<le> bc * max_charge_rate" and "discharge \<le> bd * max_discharge_rate"
  shows "\<not> (0 < charge \<and> 0 < discharge)"
  using assms by auto

text \<open>
  C4. Whenever the builder returns a model for data of \<open>T\<close> steps, then for every step
  \<open>t < T\<close> the variables \<open>BC[t]\<close> and \<open>BD[t]\<close> are declared binary, and the model has the
  constraints \<open>P_solar_battery[t] + P_grid_battery[t] \<le> BC[t] * max_charge_rate\<close>,
  \<open>P_battery_household[t] \<le> BD[t] * max_discharge_rate\<close> and \<open>BC[t] + BD[t] \<le> 1\<close>.
  Hence in every feasible assignment both indicators are 0 or 1, their sum is at
  most 1, and the battery is not charged and discharged in the same step.
\<close>

theorem charge_discharge_exclusive:
  assumes "snd (create_milp_model refused G env d battery_params cost_params buy_rates) = Inr (m, vars)"
    and "time d = Some ts"
    and "t < length ts"
  shows "var_at vars ''BC'' t = Inr (''BC'', t) \<and> var_at vars ''BD'' t = Inr (''BD'', t)
     \<and> \<lparr>vname = (''BC'', t), lb = 0, vtype = BINARY\<rparr> \<in> set (mvars m)
     \<and> \<lparr>vname = (''BD'', t), lb = 0, vtype = BINARY\<rparr> \<in> set (mvars m)
     \<and> (\<exists>max_charge_rate max_discharge_rate.
          battery_params ''max_charge_rate'' = Some max_charge_rate
        \<and> battery_params ''max_discharge_rate'' = Some max_discharge_rate
        \<and> (\<exists>c\<in>set (constrs m). cname c = (''charge_binary_'', t) \<and> (\<forall>x. holds x c =
             (x (''P_solar_battery'', t) + x (''P_grid_battery'', t)
                \<le> x (''BC'', t) * max_charge_rate)))
        \<and> (\<exists>c\<in>set (constrs m). cname c = (''discharge_binary_'', t) \<and> (\<forall>x. holds x c =
             (x (''P_battery_household'', t) \<le> x (''BD'', t) * max_discharge_rate))))
     \<and> (\<exists>c\<in>set (constrs m). cname c = (''no_simultaneous_'', t) \<and> (\<forall>x. holds x c =
             (x (''BC'', t) + x (''BD'', t) \<le> 1)))
     \<and> (\<forall>x. feasible m x \<longrightarrow>
            (x (''BC'', t) = 0 \<or> x (''BC'', t) = 1) \<and> (x (''BD'', t) = 0 \<or> x (''BD'', t) = 1)
          \<and> x (''BC'', t) + x (''BD'', t) \<le> 1
          \<and> \<not> (0 < x (''P_solar_battery'', t) + x (''P_grid_battery'', t)
                \<and> 0 < x (''P_battery_household'', t)))"
proof -
  note b = create_milp_model_InrD2 [OF assms(1,2)]
  have ok: "step_ok d battery_params cost_params buy_rates t"
    using b(3) assms(3) .
  have v: "var_at vars ''BC'' t = Inr (''BC'', t)" "var_at vars ''BD'' t = Inr (''BD'', t)"
    unfolding b(2) using assms(3) by (simp_all add: var_at_built_vars)
  have decl: "\<lparr>vname = (''BC'', t), lb = 0, vtype = BINARY\<rparr> \<in> set (mvars m)"
      "\<lparr>vname = (''BD'', t), lb = 0, vtype = BINARY\<rparr> \<in> set (mvars m)"
    unfolding b(1) using assms(3) by (simp_all add: mvars_built_model)
  from ok obtain mcr mdr where p: "battery_params ''max_charge_rate'' = Some mcr"
      "battery_params ''max_discharge_rate'' = Some mdr"
    by (auto simp: step_ok_def lookups_ok_def)
  let ?c1 = "mode_binary_constrs battery_params t ! 0"
  let ?c2 = "mode_binary_constrs battery_params t ! 1"
  let ?c3 = "no_simultaneous_constr t"
  have "set (mode_binary_constrs battery_params t) \<subseteq> set (constrs m)"
    unfolding b(1) using assms(3) by (rule constrs_built_model)
  then have in1: "?c1 \<in> set (constrs m)" and in2: "?c2 \<in> set (constrs m)"
    by (simp_all add: mode_binary_constrs_def)
  have in3: "?c3 \<in> set (constrs m)"
    unfolding b(1) using assms(3) by (rule constrs_built_model)
  have n: "cname ?c1 = (''charge_binary_'', t)" "cname ?c2 = (''discharge_binary_'', t)"
      "cname ?c3 = (''no_simultaneous_'', t)"
    by (simp_all add: mode_binary_constrs_def no_simultaneous_constr_def)
  have h1: "\<forall>x. holds x ?c1 =
      (x (''P_solar_battery'', t) + x (''P_grid_battery'', t) \<le> x (''BC'', t) * mcr)"
    by (simp add: mode_binary_constrs_def holds_def p)
  have h2: "\<forall>x. holds x ?c2 = (x (''P_battery_household'', t) \<le> x (''BD'', t) * mdr)"
    by (simp add: mode_binary_constrs_def holds_def p)
  have h3: "\<forall>x. holds x ?c3 = (x (''BC'', t) + x (''BD'', t) \<le> 1)"
    by (simp add: no_simultaneous_constr_def holds_def)
  have ex: "(x (''BC'', t) = 0 \<or> x (''BC'', t) = 1) \<and> (x (''BD'', t) = 0 \<or> x (''BD'', t) = 1)
          \<and> x (''BC'', t) + x (''BD'', t) \<le> 1
          \<and> \<not> (0 < x (''P_solar_battery'', t) + x (''P_grid_battery'', t)
                \<and> 0 < x (''P_battery_household'', t))" if f: "feasible m x" for x
  proof -
    have bc: "x (''BC'', t) = 0 \<or> x (''BC'', t) = 1"
      using feasibleD(2) [OF f decl(1)] by (simp add: within_bounds_def)
    have bd: "x (''BD'', t) = 0 \<or> x (''BD'', t) = 1"
      using feasibleD(2) [OF f decl(2)] by (simp add: within_bounds_def)
    have c1: "x (''P_solar_battery'', t) + x (''P_grid_battery'', t) \<le> x (''BC'', t) * mcr"
      using feasibleD(1) [OF f in1] h1 by simp
    have c2: "x (''P_battery_household'', t) \<le> x (''BD'', t) * mdr"
      using feasibleD(1) [OF f in2] h2 by simp
    have c3: "x (''BC'', t) + x (''BD'', t) \<le> 1"
      using feasibleD(1) [OF f in3] h3 by simp
    from exclusive_modes [OF bc bd c3 c1 c2] bc bd c3 show ?thesis
      by blast
  qed
  show ?thesis
    using v decl p in1 in2 in3 n h1 h2 h3 ex by blast
qed

lemma two_steps_plan_feasible:
  "feasible (built_model two_steps main_battery_params main_cost_params two_rates 2)
     two_steps_plan"
  by (simp add: feasible_def built_model_def declared_def upt_rec within_bounds_def holds_def
      two_steps_plan_def solar_balance_constr_def load_balance_constr_def
      battery_dynamics_constr_def soc_limits_constrs_def charge_limit_constr_def
      discharge_limit_constr_def mode_binary_constrs_def no_simultaneous_constr_def
      grid_flow_constrs_def conversion_factor_def two_steps_def main_battery_params_def)

theorem charge_discharge_exclusive_witness:
  "\<exists>m vars.
     snd (create_milp_model no_refusal None Map.empty two_steps main_battery_params main_cost_params two_rates)
       = Inr (m, vars)
     \<and> feasible m two_steps_plan
     \<and> \<lparr>vname = (''BC'', 1), lb = 0, vtype = BINARY\<rparr> \<in> set (mvars m)
     \<and> \<lparr>vname = (''BD'', 1), lb = 0, vtype = BINARY\<rparr> \<in> set (mvars m)
     \<and> (two_steps_plan (''BC'', 1) = 0 \<or> two_steps_plan (''BC'', 1) = 1)
     \<and> (two_steps_plan (''BD'', 1) = 0 \<or> two_steps_plan (''BD'', 1) = 1)
     \<and> two_steps_plan (''BC'', 1) + two_steps_plan (''BD'', 1) \<le> 1
     \<and> \<not> (0 < two_steps_plan (''P_solar_battery'', 1) + two_steps_plan (''P_grid_battery'', 1)
           \<and> 0 < two_steps_plan (''P_battery_household'', 1))"
proof -
  let ?ts = "[\<lparr>hour = 3, minute = 0\<rparr>, \<lparr>hour = 3, minute = 5\<rparr>]"
  note run = two_steps_built [of None Map.empty]
  have ts: "time two_steps = Some ?ts"
    by (simp add: two_steps_def)
  have lt: "1 < length ?ts"
    by simp
  from charge_discharge_exclusive [OF run ts lt] two_steps_plan_feasible run
  show ?thesis
    by blast
qed

section \<open>The errors of the builder when the library refuses nothing\<close>














section \<open>Two runs of the builder\<close>

text \<open>
  C9. Two runs of the builder on the same data, battery parameters, cost parameters
  and rates, each with its own licence setting, process environment and library
  behaviour: when both return a model, the two models have the same variables (names,
  bounds and types, in the same order), the same constraints and the same objective,
  hence the same feasible assignments, and the two dictionaries of variables are equal.
\<close>

theorem create_milp_model_deterministic:
  assumes "snd (create_milp_model refused G env d battery_params cost_params buy_rates)
      = Inr (m, vars)"
    and "snd (create_milp_model refused' G' env' d battery_params cost_params buy_rates)
      = Inr (m', vars')"
  shows "mvars m = mvars m' \<and> constrs m = constrs m'
     \<and> objective m = objective m' \<and> objective_sense m = objective_sense m'
     \<and> vars = vars' \<and> (\<forall>x. feasible m x = feasible m' x)"
proof -
  from create_milp_model_InrD [OF assms(1)] obtain ts where ts: "time d = Some ts"
    by blast
  have "m = m'"
    using create_milp_model_InrD2(1) [OF assms(1) ts] create_milp_model_InrD2(1) [OF assms(2) ts]
    by simp
  moreover have "vars = vars'"
    using create_milp_model_InrD2(2) [OF assms(1) ts] create_milp_model_InrD2(2) [OF assms(2) ts]
    by simp
  ultimately show ?thesis
    by simp
qed

theorem create_milp_model_deterministic_witness:
  "\<exists>m vars m' vars'.
     snd (create_milp_model no_refusal None Map.empty two_steps main_battery_params
            main_cost_params two_rates) = Inr (m, vars)
     \<and> snd (create_milp_model no_refusal (Some ''gurobi.lic'') [''HOME'' \<mapsto> ''/root'']
            two_steps main_battery_params main_cost_params two_rates) = Inr (m', vars')
     \<and> mvars m = mvars m' \<and> constrs m = constrs m'
     \<and> objective m = objective m' \<and> objective_sense m = objective_sense m'
     \<and> vars = vars' \<and> (\<forall>x. feasible m x = feasible m' x)"
proof -
  note run = two_steps_built [of None Map.empty]
  note run' = two_steps_built [of "Some ''gurobi.lic''" "[''HOME'' \<mapsto> ''/root'']"]
  from create_milp_model_deterministic [OF run run'] run run' show ?thesis
    by blast
qed

section \<open>When the builder raises\<close>




section \<open>The outcome of a solve\<close>

lemma status_codes:
  "GRB_INFEASIBLE \<noteq> GRB_OPTIMAL" "GRB_INFEASIBLE \<noteq> GRB_TIME_LIMIT"
  "GRB_INF_OR_UNBD \<noteq> GRB_OPTIMAL" "GRB_INF_OR_UNBD \<noteq> GRB_TIME_LIMIT"
  "GRB_UNBOUNDED \<noteq> GRB_OPTIMAL" "GRB_UNBOUNDED \<noteq> GRB_TIME_LIMIT"
  "GRB_NUMERIC \<noteq> GRB_OPTIMAL" "GRB_NUMERIC \<noteq> GRB_TIME_LIMIT"
  "GRB_TIME_LIMIT \<noteq> GRB_OPTIMAL"
  by (simp_all add: GRB_OPTIMAL_def GRB_INFEASIBLE_def GRB_INF_OR_UNBD_def GRB_UNBOUNDED_def
      GRB_TIME_LIMIT_def GRB_NUMERIC_def)

lemma set_params_and_optimize_eq_Inr:
  "(set_params_and_optimize eng m time_limit gap verbose = Inr s)
   = ((\<forall>seconds. time_limit = Some seconds \<longrightarrow> setParam eng ''TimeLimit'' seconds = None)
      \<and> (\<forall>g. gap = Some g \<longrightarrow> setParam eng ''MIPGap'' g = None)
      \<and> setParam eng ''OutputFlag'' (if verbose then 1 else 0) = None
      \<and> optimize eng m
           ((case time_limit of None \<Rightarrow> Map.empty | Some seconds \<Rightarrow> [''TimeLimit'' \<mapsto> seconds])
            ++ (case gap of None \<Rightarrow> Map.empty | Some g \<Rightarrow> [''MIPGap'' \<mapsto> g])
            ++ [''OutputFlag'' \<mapsto> (if verbose then 1 else 0)]) = Inr s)"
  by (cases time_limit; cases gap; cases verbose)
    (auto simp: set_params_and_optimize_def set_param_def and_then_eq_Inr split: option.splits)

lemma set_params_and_optimize_InrD:
  assumes "set_params_and_optimize eng m time_limit gap verbose = Inr s"
  shows "\<exists>ps. optimize eng m ps = Inr s"
  using assms unfolding set_params_and_optimize_eq_Inr by blast

lemma solve_milp_Inl:
  assumes "set_params_and_optimize eng m time_limit gap verbose = Inl e"
  shows "solve_milp eng m time_limit gap verbose = (False, except_clause e, None)"
  using assms by (simp add: solve_milp_def)

lemma solve_milp_Inr:
  assumes "set_params_and_optimize eng m time_limit gap verbose = Inr s"
  shows "fst (solve_milp eng m time_limit gap verbose) =
       (objVal s \<noteq> None \<and> (status s = GRB_OPTIMAL \<or> status s = GRB_TIME_LIMIT \<and> 0 < SolCount s))"
    and "snd (snd (solve_milp eng m time_limit gap verbose)) = Some s"
  using assms
  by (auto simp: solve_milp_def attr_objVal_def status_codes split: option.splits)

text \<open>
  C6. \<open>solve_milp\<close> returns a boolean on every path: an exception of the engine, from a
  parameter or from the optimisation, ends in one of the two \<open>except\<close> clauses and gives
  false. For an engine whose objective value can be read whenever it has proven an
  optimum or holds a solution, the boolean is true exactly when the engine accepted
  the parameters of the call, the optimisation with these parameters raised nothing,
  and it stopped with a proven optimum, or at the time limit with a solution count
  above zero. It is false at the time limit without an incumbent, whether or not an
  objective value can be read then, and at every other status (infeasible, unbounded,
  numeric failure).
\<close>

theorem solve_milp_outcome:
  assumes "\<forall>ps s. optimize eng m ps = Inr s \<longrightarrow> attributes_available s"
  shows "fst (solve_milp eng m time_limit gap verbose) =
     ((\<forall>seconds. time_limit = Some seconds \<longrightarrow> setParam eng ''TimeLimit'' seconds = None)
      \<and> (\<forall>g. gap = Some g \<longrightarrow> setParam eng ''MIPGap'' g = None)
      \<and> setParam eng ''OutputFlag'' (if verbose then 1 else 0) = None
      \<and> (\<exists>s. optimize eng m
           ((case time_limit of None \<Rightarrow> Map.empty | Some seconds \<Rightarrow> [''TimeLimit'' \<mapsto> seconds])
            ++ (case gap of None \<Rightarrow> Map.empty | Some g \<Rightarrow> [''MIPGap'' \<mapsto> g])
            ++ [''OutputFlag'' \<mapsto> (if verbose then 1 else 0)]) = Inr s
          \<and> (status s = GRB_OPTIMAL \<or> status s = GRB_TIME_LIMIT \<and> 0 < SolCount s)))"
proof (cases "set_params_and_optimize eng m time_limit gap verbose")
  case (Inl e)
  then have "\<forall>s. set_params_and_optimize eng m time_limit gap verbose \<noteq> Inr s"
    by simp
  then have "\<not> ((\<forall>seconds. time_limit = Some seconds \<longrightarrow> setParam eng ''TimeLimit'' seconds = None)
      \<and> (\<forall>g. gap = Some g \<longrightarrow> setParam eng ''MIPGap'' g = None)
      \<and> setParam eng ''OutputFlag'' (if verbose then 1 else 0) = None
      \<and> (\<exists>s. optimize eng m
           ((case time_limit of None \<Rightarrow> Map.empty | Some seconds \<Rightarrow> [''TimeLimit'' \<mapsto> seconds])
            ++ (case gap of None \<Rightarrow> Map.empty | Some g \<Rightarrow> [''MIPGap'' \<mapsto> g])
            ++ [''OutputFlag'' \<mapsto> (if verbose then 1 else 0)]) = Inr s
          \<and> (status s = GRB_OPTIMAL \<or> status s = GRB_TIME_LIMIT \<and> 0 < SolCount s)))"
    unfolding set_params_and_optimize_eq_Inr by blast
  moreover have "\<not> fst (solve_milp eng m time_limit gap verbose)"
    using Inl by (simp add: solve_milp_Inl)
  ultimately show ?thesis
    by blast
next
  case (Inr s)
  then have "attributes_available s"
    using set_params_and_optimize_InrD assms by blast
  then have "(status s = GRB_OPTIMAL \<or> status s = GRB_TIME_LIMIT \<and> 0 < SolCount s)
      \<Longrightarrow> objVal s \<noteq> None"
    by (auto simp: attributes_available_def)
  then have "fst (solve_milp eng m time_limit gap verbose)
      = (status s = GRB_OPTIMAL \<or> status s = GRB_TIME_LIMIT \<and> 0 < SolCount s)"
    using Inr by (auto simp: solve_milp_Inr(1))
  moreover have "\<And>s'. set_params_and_optimize eng m time_limit gap verbose = Inr s' \<Longrightarrow> s' = s"
    using Inr by simp
  ultimately show ?thesis
    using Inr unfolding set_params_and_optimize_eq_Inr by blast
qed

theorem solve_milp_outcome_witness:
  "fst (solve_milp incumbent_engine
         (built_model two_steps main_battery_params main_cost_params two_rates 2)
         (Some 300) (Some 0.01) True)
   \<and> \<not> fst (solve_milp stalled_engine
         (built_model two_steps main_battery_params main_cost_params two_rates 2)
         (Some 300) (Some 0.01) True)
   \<and> \<not> fst (solve_milp refusing_engine
         (built_model two_steps main_battery_params main_cost_params two_rates 2)
         (Some 300) (Some 0.01) True)"
proof -
  let ?m = "built_model two_steps main_battery_params main_cost_params two_rates 2"
  have "\<forall>ps s. optimize incumbent_engine ?m ps = Inr s \<longrightarrow> attributes_available s"
    by (auto simp: incumbent_engine_def attributes_available_def simp del: not_None_eq)
  from solve_milp_outcome [OF this, of "Some 300" "Some 0.01" True]
  have 1: "fst (solve_milp incumbent_engine ?m (Some 300) (Some 0.01) True)"
    by (simp add: incumbent_engine_def)
  have "\<forall>ps s. optimize stalled_engine ?m ps = Inr s \<longrightarrow> attributes_available s"
    by (auto simp: stalled_engine_def attributes_available_def status_codes)
  from solve_milp_outcome [OF this, of "Some 300" "Some 0.01" True]
  have 2: "\<not> fst (solve_milp stalled_engine ?m (Some 300) (Some 0.01) True)"
    by (simp add: stalled_engine_def status_codes)
  have "\<forall>ps s. optimize refusing_engine ?m ps = Inr s \<longrightarrow> attributes_available s"
    by (simp add: refusing_engine_def)
  from solve_milp_outcome [OF this, of "Some 300" "Some 0.01" True]
  have 3: "\<not> fst (solve_milp refusing_engine ?m (Some 300) (Some 0.01) True)"
    by (simp add: refusing_engine_def)
  from 1 2 3 show ?thesis
    by blast
qed


section \<open>The result set\<close>

lemma and_then_pairE:
  assumes "and_then r (\<lambda>(a, b). f a b) = Inr y"
  obtains a b where "r = Inr (a, b)" and "f a b = Inr y"
  using assms by (cases r) auto

lemma store_list_eq_Inr:
  "(store_list h r k xs = Inr (h', r'))
   = (\<exists>ys. xs = Inr ys
        \<and> h' = h\<lparr>objs := (objs h)(next_free h := FloatSeq ys), next_free := Suc (next_free h)\<rparr>
        \<and> r' = r(k \<mapsto> next_free h))"
  by (auto simp: store_list_def alloc_def and_then_eq_Inr)

lemma store_list_keeps:
  assumes "store_list h r k xs = Inr (h', r')"
    and "n \<le> next_free h \<and> (\<forall>a<n. objs h a = f a)
       \<and> r ''time'' = t \<and> r ''solar_production'' = s \<and> r ''load_demand'' = l"
    and "k \<noteq> ''time'' \<and> k \<noteq> ''solar_production'' \<and> k \<noteq> ''load_demand''"
  shows "n \<le> next_free h' \<and> (\<forall>a<n. objs h' a = f a)
       \<and> r' ''time'' = t \<and> r' ''solar_production'' = s \<and> r' ''load_demand'' = l"
  using assms by (auto simp: store_list_eq_Inr)

lemma store_list_keeps_init:
  assumes "store_list h r k xs = Inr y"
  shows "next_free h \<le> next_free h \<and> (\<forall>a<next_free h. objs h a = objs h a)
       \<and> r ''time'' = r ''time'' \<and> r ''solar_production'' = r ''solar_production''
       \<and> r ''load_demand'' = r ''load_demand''"
  by simp

text \<open>
  C10. Whenever \<open>extract_results\<close> returns a result set, its entries \<open>time\<close>,
  \<open>solar_production\<close> and \<open>load_demand\<close> hold the very references that \<open>data\<close> holds
  under these keys: the same objects, not copies. No object that was in the store
  before the call is changed by it; the lists that the call builds are new objects.
  The result set therefore shares the three sequences with the caller.
\<close>

theorem extract_results_aliases_input:
  assumes "extract_results h st vars data battery_params = Inr (h', results)"
  shows "data ''time'' \<noteq> None \<and> results ''time'' = data ''time''
     \<and> data ''solar_production'' \<noteq> None
     \<and> results ''solar_production'' = data ''solar_production''
     \<and> data ''load_demand'' \<noteq> None \<and> results ''load_demand'' = data ''load_demand''
     \<and> (\<forall>a<next_free h. objs h' a = objs h a)"
  using assms unfolding extract_results_def Let_def
  apply (elim and_then_pairE and_thenE)
  apply (frule store_list_keeps_init)
  apply (drule (1) store_list_keeps, simp (no_asm))
  apply (drule (1) store_list_keeps, simp (no_asm))
  apply (drule (1) store_list_keeps, simp (no_asm))
  apply (drule (1) store_list_keeps, simp (no_asm))
  apply (drule (1) store_list_keeps, simp (no_asm))
  apply (drule (1) store_list_keeps, simp (no_asm))
  apply (drule (1) store_list_keeps, simp (no_asm))
  apply (drule (1) store_list_keeps, simp (no_asm))
  apply (drule (1) store_list_keeps, simp (no_asm))
  apply (drule (1) store_list_keeps, simp (no_asm))
  apply (drule (1) store_list_keeps, simp (no_asm))
  apply (clarsimp simp: alloc_def)
  done

lemma collect_maps:
  assumes "\<And>t v. t \<in> set ts \<Longrightarrow> (f t = Inr v) = (ok t \<and> v = g t)"
  shows "(collect ts f = Inr vs) = ((\<forall>t\<in>set ts. ok t) \<and> vs = map g ts)"
  using assms
proof (induction ts arbitrary: vs)
  case Nil
  then show ?case by auto
next
  case (Cons t ts)
  have f: "\<And>v. (f t = Inr v) = (ok t \<and> v = g t)"
    using Cons.prems by simp
  have IH: "\<And>vs. (collect ts f = Inr vs) = ((\<forall>t\<in>set ts. ok t) \<and> vs = map g ts)"
    using Cons.IH Cons.prems by simp
  show ?case
    by (auto simp: and_then_eq_Inr f IH)
qed

lemma store_list_Inr:
  "store_list h r k (Inr xs) =
     Inr (h\<lparr>objs := (objs h)(next_free h := FloatSeq xs), next_free := Suc (next_free h)\<rparr>,
          r(k \<mapsto> next_free h))"
  by (simp add: store_list_def alloc_def)

lemma collect_var_value:
  assumes "var_X s = Some x"
    and "n \<in> set [''P_solar_household'', ''P_solar_battery'', ''P_solar_grid'',
      ''P_battery_household'', ''P_grid_battery'', ''P_grid_household'', ''SE'', ''BC'', ''BD'',
      ''GF'']"
  shows "collect [0..<T] (var_value (built_vars T) (Some s) n) = Inr (map (\<lambda>t. x (n, t)) [0..<T])"
proof -
  have "(var_value (built_vars T) (Some s) n t = Inr v) = (True \<and> v = x (n, t))"
    if "t \<in> set [0..<T]" for t v
    using that assms by (auto simp: var_value_def var_at_built_vars attr_X_def)
  then have "(collect [0..<T] (var_value (built_vars T) (Some s) n) = Inr vs)
      = ((\<forall>t\<in>set [0..<T]. True) \<and> vs = map (\<lambda>t. x (n, t)) [0..<T])" for vs
    by (rule collect_maps)
  then show ?thesis
    by simp
qed

lemma collect_soc_value:
  assumes "var_X s = Some x"
    and "battery_params ''capacity_kwh'' = Some capacity_kwh" and "capacity_kwh \<noteq> 0 \<or> T = 0"
  shows "collect [0..<T] (soc_value (built_vars T) (Some s) battery_params)
     = Inr (map (\<lambda>t. x (''SE'', t) / capacity_kwh * 100) [0..<T])"
proof -
  have "(soc_value (built_vars T) (Some s) battery_params t = Inr v)
      = (True \<and> v = x (''SE'', t) / capacity_kwh * 100)"
    if "t \<in> set [0..<T]" for t v
    using that assms
    by (auto simp: soc_value_def var_value_def var_at_built_vars attr_X_def py_truediv_def
        dict_get_def)
  then have "(collect [0..<T] (soc_value (built_vars T) (Some s) battery_params) = Inr vs)
      = ((\<forall>t\<in>set [0..<T]. True) \<and> vs = map (\<lambda>t. x (''SE'', t) / capacity_kwh * 100) [0..<T])"
    for vs
    by (rule collect_maps)
  then show ?thesis
    by simp
qed

lemma extract_results_built:
  assumes "data ''time'' = Some a_time" and "objs h a_time = TimeSeq ts"
    and "data ''solar_production'' = Some a_solar" and "data ''load_demand'' = Some a_load"
    and "a_time < next_free h" and "a_solar < next_free h" and "a_load < next_free h"
    and "var_X s = Some x" and "objVal s = Some cost"
    and "battery_params ''capacity_kwh'' = Some capacity_kwh"
    and "capacity_kwh \<noteq> 0 \<or> ts = []"
  shows "\<exists>h' results.
       extract_results h (Some s) (built_vars (length ts)) data battery_params = Inr (h', results)
     \<and> results ''time'' = Some a_time \<and> objs h' a_time = TimeSeq ts
     \<and> results ''solar_production'' = Some a_solar \<and> objs h' a_solar = objs h a_solar
     \<and> results ''load_demand'' = Some a_load \<and> objs h' a_load = objs h a_load
     \<and> (\<forall>n\<in>set [''P_solar_household'', ''P_solar_battery'', ''P_solar_grid'',
            ''P_battery_household'', ''P_grid_battery'', ''P_grid_household'', ''SE'', ''BC'',
            ''BD'', ''GF''].
          float_list_at h' results n = Some (map (\<lambda>t. x (n, t)) [0..<length ts]))
     \<and> float_list_at h' results ''SoC''
         = Some (map (\<lambda>t. x (''SE'', t) / capacity_kwh * 100) [0..<length ts])
     \<and> float_at h' results ''total_cost'' = Some cost"
proof -
  have "capacity_kwh \<noteq> 0 \<or> length ts = 0"
    using assms(11) by simp
  note soc = collect_soc_value [of s x battery_params capacity_kwh, OF assms(8,10) this]
  show ?thesis
    using assms(5-7)
    by (simp add: extract_results_def Let_def dict_get_def len_def assms(1-4)
        collect_var_value [OF assms(8)] soc store_list_Inr alloc_def attr_objVal_def assms(9)
        float_list_at_def float_at_def)
qed

lemma collect_soc_zero_capacity:
  assumes "var_X s = Some x" and "battery_params ''capacity_kwh'' = Some 0" and "0 < T"
  shows "collect [0..<T] (soc_value (built_vars T) (Some s) battery_params)
     = Inl ZeroDivisionError"
proof -
  have "soc_value (built_vars T) (Some s) battery_params 0 = Inl ZeroDivisionError"
    using assms
    by (simp add: soc_value_def var_value_def var_at_built_vars attr_X_def py_truediv_def
        dict_get_def)
  moreover have "[0..<T] = 0 # [Suc 0..<T]"
    using assms(3) by (rule upt_conv_Cons)
  ultimately show ?thesis
    by simp
qed

lemma extract_results_zero_capacity:
  assumes "data ''time'' = Some a_time" and "objs h a_time = TimeSeq ts"
    and "data ''solar_production'' = Some a_solar" and "data ''load_demand'' = Some a_load"
    and "var_X s = Some x"
    and "battery_params ''capacity_kwh'' = Some 0" and "ts \<noteq> []"
  shows "extract_results h (Some s) (built_vars (length ts)) data battery_params
     = Inl ZeroDivisionError"
proof -
  have "0 < length ts"
    using assms(7) by simp
  note soc = collect_soc_zero_capacity [of s x battery_params, OF assms(5,6) this]
  show ?thesis
    by (simp add: extract_results_def Let_def dict_get_def len_def assms(1-4)
        collect_var_value [OF assms(5)] soc store_list_Inr store_list_def alloc_def)
qed

lemma two_steps_store:
  "two_steps_refs ''time'' = Some 0" "two_steps_refs ''solar_production'' = Some 1"
  "two_steps_refs ''load_demand'' = Some 2"
  "objs two_steps_heap 0 = TimeSeq [\<lparr>hour = 3, minute = 0\<rparr>, \<lparr>hour = 3, minute = 5\<rparr>]"
  "objs two_steps_heap 1 = FloatSeq [0, 1500]" "objs two_steps_heap 2 = FloatSeq [400, 300]"
  "0 < next_free two_steps_heap" "1 < next_free two_steps_heap" "2 < next_free two_steps_heap"
  by (simp_all add: two_steps_refs_def two_steps_heap_def)

theorem extract_results_aliases_input_witness:
  "\<exists>h' results.
     extract_results two_steps_heap
       (Some \<lparr>status = GRB_TIME_LIMIT, SolCount = 1, objVal = Some (263 / 75000),
              var_X = Some two_steps_plan\<rparr>)
       (built_vars 2) two_steps_refs main_battery_params = Inr (h', results)
     \<and> results ''time'' = Some 0 \<and> results ''solar_production'' = Some 1
     \<and> results ''load_demand'' = Some 2
     \<and> objs h' 0 = objs two_steps_heap 0 \<and> objs h' 1 = objs two_steps_heap 1
     \<and> objs h' 2 = objs two_steps_heap 2"
proof -
  let ?s = "\<lparr>status = GRB_TIME_LIMIT, SolCount = 1, objVal = Some (263 / 75000),
            var_X = Some two_steps_plan\<rparr>"
  let ?ts = "[\<lparr>hour = 3, minute = 0\<rparr>, \<lparr>hour = 3, minute = 5\<rparr>]"
  have cap: "main_battery_params ''capacity_kwh'' = Some 4.8" "(4.8 :: real) \<noteq> 0 \<or> ?ts = []"
    by (simp_all add: main_battery_params_def)
  have "\<exists>h' results. extract_results two_steps_heap (Some ?s) (built_vars (length ?ts))
      two_steps_refs main_battery_params = Inr (h', results)"
  proof -
    have x: "var_X ?s = Some two_steps_plan" and c: "objVal ?s = Some (263 / 75000)"
      by simp_all
    from extract_results_built [where data = two_steps_refs
        and battery_params = main_battery_params, OF two_steps_store(1,4,2,3,7,8,9) x c cap]
    show ?thesis
      by blast
  qed
  then obtain h' results where e: "extract_results two_steps_heap (Some ?s) (built_vars 2)
      two_steps_refs main_battery_params = Inr (h', results)"
    by (auto simp: numeral_2_eq_2)
  from extract_results_aliases_input [OF e] two_steps_store(1-3,7-9)
  have "results ''time'' = Some 0 \<and> results ''solar_production'' = Some 1
     \<and> results ''load_demand'' = Some 2
     \<and> objs h' 0 = objs two_steps_heap 0 \<and> objs h' 1 = objs two_steps_heap 1
     \<and> objs h' 2 = objs two_steps_heap 2"
    by simp
  with e show ?thesis
    by blast
qed


lemma no_capacity_ok:
  "t < 2 \<Longrightarrow> step_ok two_steps no_capacity_params main_cost_params two_rates t"
  by (cases t) (simp_all add: step_ok_def lookups_ok_def two_steps_def no_capacity_params_def
      main_battery_params_def main_cost_params_def two_rates_def)

lemma no_capacity_built:
  "snd (create_milp_model no_refusal G env two_steps no_capacity_params main_cost_params
       two_rates) =
     Inr (built_model two_steps no_capacity_params main_cost_params two_rates 2, built_vars 2)"
proof -
  let ?ts = "[\<lparr>hour = 3, minute = 0\<rparr>, \<lparr>hour = 3, minute = 5\<rparr>]"
  have "time two_steps = Some ?ts"
    by (simp add: two_steps_def)
  moreover have "\<forall>t<length ?ts. step_ok two_steps no_capacity_params main_cost_params two_rates t"
    by (simp add: no_capacity_ok)
  moreover have "\<forall>c. \<not> no_refusal c"
    by (simp add: no_refusal_def)
  ultimately have "snd (create_milp_model no_refusal G env two_steps no_capacity_params
      main_cost_params two_rates) =
     Inr (built_model two_steps no_capacity_params main_cost_params two_rates (length ?ts),
          built_vars (length ?ts))"
    by (rule create_milp_model_built)
  then show ?thesis
    by (simp add: numeral_2_eq_2)
qed

lemma grid_only_plan_feasible:
  "feasible (built_model two_steps no_capacity_params main_cost_params two_rates 2)
     grid_only_plan"
  by (simp add: feasible_def built_model_def declared_def upt_rec within_bounds_def holds_def
      grid_only_plan_def solar_balance_constr_def load_balance_constr_def
      battery_dynamics_constr_def soc_limits_constrs_def charge_limit_constr_def
      discharge_limit_constr_def mode_binary_constrs_def no_simultaneous_constr_def
      grid_flow_constrs_def conversion_factor_def two_steps_def no_capacity_params_def
      main_battery_params_def)

lemma grid_only_solve:
  "solve_milp grid_only_engine m (Some 300) (Some 0.01) True
     = (True, Optimal_solution_found (263 / 75000 - 39 / 2000),
        Some \<lparr>status = GRB_OPTIMAL, SolCount = 1, objVal = Some (263 / 75000 - 39 / 2000),
              var_X = Some grid_only_plan\<rparr>)"
  by (simp add: solve_milp_def set_params_and_optimize_def set_param_def grid_only_engine_def
      attr_objVal_def)

lemma no_capacity_zero: "no_capacity_params ''capacity_kwh'' = Some 0"
  by (simp add: no_capacity_params_def)

text \<open>
  C8, for a battery without capacity. The capacity is zero: the builder
  returns the model of the two steps, the assignment that leaves the battery empty
  satisfies it, the engine proves it optimal and \<open>solve_milp\<close> returns true. Then
  \<open>extract_results\<close> is called and the division \<open>SE[0] / capacity_kwh\<close> raises
  \<open>ZeroDivisionError\<close>: a successful solve is followed by no result set.
\<close>

theorem zero_capacity_no_result:
  "snd (create_milp_model no_refusal None Map.empty two_steps no_capacity_params
          main_cost_params two_rates)
     = Inr (built_model two_steps no_capacity_params main_cost_params two_rates 2, built_vars 2)
   \<and> feasible (built_model two_steps no_capacity_params main_cost_params two_rates 2)
       grid_only_plan
   \<and> fst (solve_milp grid_only_engine
         (built_model two_steps no_capacity_params main_cost_params two_rates 2)
         (Some 300) (Some 0.01) True)
   \<and> main_solve grid_only_engine two_steps_heap
         (built_model two_steps no_capacity_params main_cost_params two_rates 2) (built_vars 2)
         two_steps_refs no_capacity_params = Some (Inl ZeroDivisionError)"
proof -
  let ?m = "built_model two_steps no_capacity_params main_cost_params two_rates 2"
  let ?ts = "[\<lparr>hour = 3, minute = 0\<rparr>, \<lparr>hour = 3, minute = 5\<rparr>]"
  let ?s = "\<lparr>status = GRB_OPTIMAL, SolCount = 1, objVal = Some (263 / 75000 - 39 / 2000),
            var_X = Some grid_only_plan\<rparr>"
  have "var_X ?s = Some grid_only_plan" and "?ts \<noteq> []"
    by simp_all
  from extract_results_zero_capacity [where data = two_steps_refs
      and battery_params = no_capacity_params and h = two_steps_heap,
      OF two_steps_store(1,4,2,3) this(1) no_capacity_zero this(2)]
  have "extract_results two_steps_heap (Some ?s) (built_vars 2) two_steps_refs
      no_capacity_params = Inl ZeroDivisionError"
    by (simp add: numeral_2_eq_2)
  then have "main_solve grid_only_engine two_steps_heap ?m (built_vars 2) two_steps_refs
      no_capacity_params = Some (Inl ZeroDivisionError)"
    unfolding main_solve_def grid_only_solve prod.case if_True by (rule arg_cong)
  moreover have "fst (solve_milp grid_only_engine ?m (Some 300) (Some 0.01) True)"
    by (simp only: grid_only_solve fst_conv)
  ultimately show ?thesis
    using no_capacity_built [of None Map.empty] grid_only_plan_feasible by blast
qed

text \<open>
  C8, with the capacity of the battery. Let the model and its variables come from the
  builder for data whose
  timestamps and series the store holds, let the engine make the objective value and
  the values of the variables readable whenever it has proven an optimum or holds a
  solution, and let \<open>capacity_kwh\<close> be the capacity of the battery. \<open>main\<close> solves
  with a time limit of 300 seconds and a gap of 0.01. If \<open>solve_milp\<close> returns false,
  \<open>extract_results\<close> is not called and there is no result set. If it returns true,
  \<open>extract_results\<close> is called. When the capacity is zero and there is at least one
  step, the call raises \<open>ZeroDivisionError\<close> and there is no result set. Otherwise it
  returns a result set: it holds the three input series, for each of the ten families
  of variables the list of the solved values of the steps \<open>0 \<le> t < T\<close>, under \<open>SoC\<close>
  the list of \<open>SE[t] / capacity_kwh * 100\<close>, and under \<open>total_cost\<close> the objective value
  of the solve.
\<close>

theorem results_after_successful_solve:
  assumes "snd (create_milp_model refused G env d battery_params cost_params buy_rates)
      = Inr (m, vars)"
    and "time d = Some ts"
    and "data ''time'' = Some a_time" and "objs h a_time = TimeSeq ts"
    and "data ''solar_production'' = Some a_solar" and "data ''load_demand'' = Some a_load"
    and "a_time < next_free h" and "a_solar < next_free h" and "a_load < next_free h"
    and "\<forall>ps s. optimize eng m ps = Inr s \<longrightarrow> attributes_available s"
    and "battery_params ''capacity_kwh'' = Some capacity_kwh"
  shows "if fst (solve_milp eng m (Some 300) (Some 0.01) True) then
       if capacity_kwh = 0 \<and> ts \<noteq> [] then
         main_solve eng h m vars data battery_params = Some (Inl ZeroDivisionError)
       else
         \<exists>s x cost h' results.
           snd (snd (solve_milp eng m (Some 300) (Some 0.01) True)) = Some s
         \<and> var_X s = Some x \<and> objVal s = Some cost
         \<and> main_solve eng h m vars data battery_params = Some (Inr (h', results))
         \<and> results ''time'' = Some a_time \<and> objs h' a_time = TimeSeq ts
         \<and> results ''solar_production'' = Some a_solar \<and> objs h' a_solar = objs h a_solar
         \<and> results ''load_demand'' = Some a_load \<and> objs h' a_load = objs h a_load
         \<and> (\<forall>n\<in>set [''P_solar_household'', ''P_solar_battery'', ''P_solar_grid'',
                ''P_battery_household'', ''P_grid_battery'', ''P_grid_household'', ''SE'', ''BC'',
                ''BD'', ''GF''].
              float_list_at h' results n = Some (map (\<lambda>t. x (n, t)) [0..<length ts]))
         \<and> float_list_at h' results ''SoC''
             = Some (map (\<lambda>t. x (''SE'', t) / capacity_kwh * 100) [0..<length ts])
         \<and> float_at h' results ''total_cost'' = Some cost
     else main_solve eng h m vars data battery_params = None"
proof (cases "fst (solve_milp eng m (Some 300) (Some 0.01) True)")
  case False
  obtain ok line st where r: "solve_milp eng m (Some 300) (Some 0.01) True = (ok, line, st)"
    by (cases "solve_milp eng m (Some 300) (Some 0.01) True")
  with False have "main_solve eng h m vars data battery_params = None"
    by (simp add: main_solve_def)
  with False show ?thesis
    by (simp only: if_False)
next
  case ok: True
  then obtain s where s: "set_params_and_optimize eng m (Some 300) (Some 0.01) True = Inr s"
    by (cases "set_params_and_optimize eng m (Some 300) (Some 0.01) True")
      (simp_all add: solve_milp_Inl)
  note r = solve_milp_Inr [OF s]
  have av: "attributes_available s"
    using set_params_and_optimize_InrD [OF s] assms(10) by blast
  from ok r(1) obtain cost where cost: "objVal s = Some cost"
    and st: "status s = GRB_OPTIMAL \<or> status s = GRB_TIME_LIMIT \<and> 0 < SolCount s"
    by auto
  from st av obtain x where x: "var_X s = Some x"
    by (auto simp: attributes_available_def)
  have vars: "vars = built_vars (length ts)"
    by (rule create_milp_model_InrD2(2) [OF assms(1,2)])
  obtain ok line st where o: "solve_milp eng m (Some 300) (Some 0.01) True = (ok, line, st)"
    by (cases "solve_milp eng m (Some 300) (Some 0.01) True")
  have ms: "main_solve eng h m vars data battery_params
      = Some (extract_results h (Some s) (built_vars (length ts)) data battery_params)"
    using ok r(2) o by (simp add: main_solve_def vars)
  show ?thesis
  proof (cases "capacity_kwh = 0 \<and> ts \<noteq> []")
    case zero: True
    then have c: "battery_params ''capacity_kwh'' = Some 0" and n: "ts \<noteq> []"
      using assms(11) by simp_all
    have "extract_results h (Some s) (built_vars (length ts)) data battery_params
        = Inl ZeroDivisionError"
      by (rule extract_results_zero_capacity [where data = data and h = h and s = s
            and battery_params = battery_params, OF assms(3-6) x c n])
    then have "main_solve eng h m vars data battery_params = Some (Inl ZeroDivisionError)"
      using ms by simp
    then show ?thesis
      unfolding if_P [OF ok] if_P [OF zero] .
  next
    case nonzero: False
    then have nz: "capacity_kwh \<noteq> 0 \<or> ts = []"
      by blast
    from extract_results_built [where data = data and battery_params = battery_params,
        OF assms(3-9) x cost assms(11) nz]
    obtain h' results where e: "extract_results h (Some s) (built_vars (length ts)) data
          battery_params = Inr (h', results)"
      and p: "results ''time'' = Some a_time" "objs h' a_time = TimeSeq ts"
        "results ''solar_production'' = Some a_solar" "objs h' a_solar = objs h a_solar"
        "results ''load_demand'' = Some a_load" "objs h' a_load = objs h a_load"
        "\<forall>n\<in>set [''P_solar_household'', ''P_solar_battery'', ''P_solar_grid'',
                ''P_battery_household'', ''P_grid_battery'', ''P_grid_household'', ''SE'', ''BC'',
                ''BD'', ''GF''].
              float_list_at h' results n = Some (map (\<lambda>t. x (n, t)) [0..<length ts])"
        "float_list_at h' results ''SoC''
             = Some (map (\<lambda>t. x (''SE'', t) / capacity_kwh * 100) [0..<length ts])"
        "float_at h' results ''total_cost'' = Some cost"
      by blast
    have "main_solve eng h m vars data battery_params = Some (Inr (h', results))"
      using ms e by simp
    with r(2) x cost p
    have "\<exists>s x cost h' results.
           snd (snd (solve_milp eng m (Some 300) (Some 0.01) True)) = Some s
         \<and> var_X s = Some x \<and> objVal s = Some cost
         \<and> main_solve eng h m vars data battery_params = Some (Inr (h', results))
         \<and> results ''time'' = Some a_time \<and> objs h' a_time = TimeSeq ts
         \<and> results ''solar_production'' = Some a_solar \<and> objs h' a_solar = objs h a_solar
         \<and> results ''load_demand'' = Some a_load \<and> objs h' a_load = objs h a_load
         \<and> (\<forall>n\<in>set [''P_solar_household'', ''P_solar_battery'', ''P_solar_grid'',
                ''P_battery_household'', ''P_grid_battery'', ''P_grid_household'', ''SE'', ''BC'',
                ''BD'', ''GF''].
              float_list_at h' results n = Some (map (\<lambda>t. x (n, t)) [0..<length ts]))
         \<and> float_list_at h' results ''SoC''
             = Some (map (\<lambda>t. x (''SE'', t) / capacity_kwh * 100) [0..<length ts])
         \<and> float_at h' results ''total_cost'' = Some cost"
      by blast
    then show ?thesis
      unfolding if_P [OF ok] if_not_P [OF nonzero] .
  qed
qed

theorem results_after_successful_solve_witness:
  "(\<exists>h' results.
       main_solve incumbent_engine two_steps_heap
         (built_model two_steps main_battery_params main_cost_params two_rates 2) (built_vars 2)
         two_steps_refs main_battery_params = Some (Inr (h', results))
     \<and> results ''time'' = Some 0 \<and> results ''solar_production'' = Some 1
     \<and> results ''load_demand'' = Some 2
     \<and> float_list_at h' results ''P_solar_battery'' = Some [0, 1200]
     \<and> float_list_at h' results ''SE'' = Some [1.056, 1.151]
     \<and> float_list_at h' results ''SoC'' = Some [1.056 / 4.8 * 100, 1.151 / 4.8 * 100]
     \<and> float_list_at h' results ''BC'' = Some [0, 1]
     \<and> float_at h' results ''total_cost'' = Some (263 / 75000))
   \<and> main_solve refusing_engine two_steps_heap
         (built_model two_steps main_battery_params main_cost_params two_rates 2) (built_vars 2)
         two_steps_refs main_battery_params = None
   \<and> main_solve grid_only_engine two_steps_heap
         (built_model two_steps no_capacity_params main_cost_params two_rates 2) (built_vars 2)
         two_steps_refs no_capacity_params = Some (Inl ZeroDivisionError)"
proof -
  let ?m = "built_model two_steps main_battery_params main_cost_params two_rates 2"
  let ?zm = "built_model two_steps no_capacity_params main_cost_params two_rates 2"
  let ?ts = "[\<lparr>hour = 3, minute = 0\<rparr>, \<lparr>hour = 3, minute = 5\<rparr>]"
  let ?s = "\<lparr>status = GRB_TIME_LIMIT, SolCount = 1, objVal = Some (263 / 75000),
            var_X = Some two_steps_plan\<rparr>"
  note run = two_steps_built [of None Map.empty]
  note run0 = no_capacity_built [of None Map.empty]
  have ts: "time two_steps = Some ?ts"
    by (simp add: two_steps_def)
  have cap: "main_battery_params ''capacity_kwh'' = Some 4.8"
    by (simp add: main_battery_params_def)
  have c1: "\<forall>ps s. optimize incumbent_engine ?m ps = Inr s \<longrightarrow> attributes_available s"
    by (auto simp: incumbent_engine_def attributes_available_def simp del: not_None_eq)
  have c2: "\<forall>ps s. optimize refusing_engine ?m ps = Inr s \<longrightarrow> attributes_available s"
    by (simp add: refusing_engine_def)
  have c3: "\<forall>ps s. optimize grid_only_engine ?zm ps = Inr s \<longrightarrow> attributes_available s"
    by (auto simp: grid_only_engine_def attributes_available_def simp del: not_None_eq)
  have ok: "solve_milp incumbent_engine ?m (Some 300) (Some 0.01) True
      = (True, Time_limit_reached (263 / 75000), Some ?s)"
    by (simp add: solve_milp_def set_params_and_optimize_def set_param_def incumbent_engine_def
        attr_objVal_def status_codes)
  have no: "solve_milp refusing_engine ?m (Some 300) (Some 0.01) True
      = (False, Gurobi_error, None)"
    by (simp add: solve_milp_def set_params_and_optimize_def set_param_def refusing_engine_def
        except_clause_def)
  have nz: "\<not> ((4.8 :: real) = 0 \<and> ?ts \<noteq> [])" and z: "(0 :: real) = 0 \<and> ?ts \<noteq> []"
    by simp_all
  from results_after_successful_solve [where data = two_steps_refs
      and battery_params = main_battery_params and eng = incumbent_engine,
      OF run ts two_steps_store(1,4,2,3,7,8,9) c1 cap]
  obtain s x cost h' results where s: "Some ?s = Some s"
    and x: "var_X s = Some x" and cost: "objVal s = Some cost"
    and ms: "main_solve incumbent_engine two_steps_heap ?m (built_vars 2) two_steps_refs
        main_battery_params = Some (Inr (h', results))"
    and p: "results ''time'' = Some 0" "results ''solar_production'' = Some 1"
      "results ''load_demand'' = Some 2"
    and v: "\<forall>n\<in>set [''P_solar_household'', ''P_solar_battery'', ''P_solar_grid'',
                ''P_battery_household'', ''P_grid_battery'', ''P_grid_household'', ''SE'', ''BC'',
                ''BD'', ''GF''].
              float_list_at h' results n = Some (map (\<lambda>t. x (n, t)) [0..<length ?ts])"
    and soc: "float_list_at h' results ''SoC''
             = Some (map (\<lambda>t. x (''SE'', t) / 4.8 * 100) [0..<length ?ts])"
    and total: "float_at h' results ''total_cost'' = Some cost"
    unfolding ok fst_conv snd_conv if_True if_not_P [OF nz] by blast
  from s x cost have xs: "x = two_steps_plan" "cost = 263 / 75000"
    by auto
  have upt: "[0..<length ?ts] = [0, 1]"
    by (simp add: upt_rec)
  have "float_list_at h' results ''P_solar_battery'' = Some [0, 1200]"
    "float_list_at h' results ''SE'' = Some [1.056, 1.151]"
    "float_list_at h' results ''BC'' = Some [0, 1]"
    using v by (simp_all add: upt xs two_steps_plan_def)
  moreover have "float_list_at h' results ''SoC'' = Some [1.056 / 4.8 * 100, 1.151 / 4.8 * 100]"
    using soc by (simp add: upt xs two_steps_plan_def)
  moreover have "float_at h' results ''total_cost'' = Some (263 / 75000)"
    using total xs by simp
  moreover have "main_solve refusing_engine two_steps_heap ?m (built_vars 2) two_steps_refs
      main_battery_params = None"
    using results_after_successful_solve [where data = two_steps_refs
      and battery_params = main_battery_params and eng = refusing_engine
      and h = two_steps_heap,
      OF run ts two_steps_store(1,4,2,3,7,8,9) c2 cap]
    unfolding no fst_conv if_False .
  moreover have "main_solve grid_only_engine two_steps_heap ?zm (built_vars 2) two_steps_refs
      no_capacity_params = Some (Inl ZeroDivisionError)"
    using results_after_successful_solve [where data = two_steps_refs
      and battery_params = no_capacity_params and eng = grid_only_engine
      and h = two_steps_heap,
      OF run0 ts two_steps_store(1,4,2,3,7,8,9) c3 no_capacity_zero]
    unfolding grid_only_solve fst_conv if_True if_P [OF z] .
  ultimately show ?thesis
    using ms p by blast
qed

end
